theory Spec2Isabelle
  imports Complex_Main "HOL-Library.Sublist" "HOL-Library.AList"
begin

section \<open>Python values: errors, text and regular expressions\<close>

text \<open>
  The source is Python. Its \<^verbatim>\<open>str\<close> values are modelled as lists of 8-bit characters,
  each read as the code point of that number (0 to 255); floats are modelled as reals;
  integers as \<^typ>\<open>int\<close> or, for counts and lengths, \<^typ>\<open>nat\<close>. An exception is
  a value of \<open>py_error\<close>, and a computation that may raise returns \<open>py_error + 'a\<close>.
\<close>

datatype py_error =
    KeyError string
  | IndexError
  | ValueError string
  | ZeroDivisionError
  | Failure string
  | Unprintable py_error
  | BaseFailure string

text \<open>
  \<open>Failure\<close> stands for an exception derived from \<^verbatim>\<open>Exception\<close> that an external
  collaborator raises, with its text; \<open>Unprintable e\<close> for such an exception whose
  \<^verbatim>\<open>__str__\<close> raises \<open>e\<close>; and \<open>BaseFailure\<close> for an exception outside the
  \<^verbatim>\<open>Exception\<close> hierarchy (\<^verbatim>\<open>KeyboardInterrupt\<close>, \<^verbatim>\<open>SystemExit\<close>), which
  an \<^verbatim>\<open>except Exception\<close> clause does not catch.

  \<open>str_of_error\<close> is \<^verbatim>\<open>str(e)\<close>, which may itself raise, and \<open>is_exception\<close>
  tells whether \<^verbatim>\<open>except Exception\<close> catches the exception.
\<close>

fun str_of_error :: "py_error \<Rightarrow> py_error + string" where
  "str_of_error (KeyError k) = Inr ([CHR 0x27] @ k @ [CHR 0x27])"
| "str_of_error IndexError = Inr ''list index out of range''"
| "str_of_error (ValueError msg) = Inr msg"
| "str_of_error ZeroDivisionError = Inr ''division by zero''"
| "str_of_error (Failure msg) = Inr msg"
| "str_of_error (Unprintable raised) = Inl raised"
| "str_of_error (BaseFailure msg) = Inr msg"

fun is_exception :: "py_error \<Rightarrow> bool" where
  "is_exception (BaseFailure msg) = False"
| "is_exception e = True"

text \<open>\<^verbatim>\<open>try: body except Exception as e: handler\<close>. An exception raised by the handler
  leaves the statement, as one that the clause does not catch does.\<close>

definition try_except :: "py_error + 'a \<Rightarrow> (py_error \<Rightarrow> py_error + 'a) \<Rightarrow> py_error + 'a" where
  "try_except body handler =
     (case body of
        Inr v \<Rightarrow> Inr v
      | Inl e \<Rightarrow> if is_exception e then handler e else Inl e)"

text \<open>An exception that \<^verbatim>\<open>except Exception\<close> catches and whose text \<^verbatim>\<open>str(e)\<close>
  returns.\<close>

definition has_text :: "py_error \<Rightarrow> bool" where
  "has_text e = (case str_of_error e of Inl raised \<Rightarrow> False | Inr msg \<Rightarrow> is_exception e)"

subsection \<open>Character classes and case\<close>

text \<open>
  \<open>isspace\<close>, \<open>isdigit\<close> and \<open>isword\<close> are \<^verbatim>\<open>str.isspace\<close> and the classes
  \<^verbatim>\<open>\s\<close>, \<^verbatim>\<open>\d\<close> and \<^verbatim>\<open>\w\<close> of the \<^verbatim>\<open>re\<close> module on code points
  below 256; \<open>lower\<close> is \<^verbatim>\<open>str.lower\<close> there.
\<close>

definition code_point :: "char \<Rightarrow> nat" where
  "code_point c = of_char c"

definition isspace :: "char \<Rightarrow> bool" where
  "isspace c = (code_point c \<in> set [9, 10, 11, 12, 13, 28, 29, 30, 31, 32, 133, 160])"

definition isdigit :: "char \<Rightarrow> bool" where
  "isdigit c = (48 \<le> code_point c \<and> code_point c \<le> 57)"

definition isword :: "char \<Rightarrow> bool" where
  "isword c =
     (let n = code_point c in
      (48 \<le> n \<and> n \<le> 57) \<or> (65 \<le> n \<and> n \<le> 90) \<or> n = 95 \<or> (97 \<le> n \<and> n \<le> 122) \<or>
      n \<in> set [170, 178, 179, 181, 185, 186, 188, 189, 190] \<or>
      (192 \<le> n \<and> n \<noteq> 215 \<and> n \<noteq> 247))"

definition lower_table :: "(char \<times> char) list" where
  "lower_table =
     zip ''ABCDEFGHIJKLMNOPQRSTUVWXYZ'' ''abcdefghijklmnopqrstuvwxyz'' @
     zip [CHR 0xC0, CHR 0xC1, CHR 0xC2, CHR 0xC3, CHR 0xC4, CHR 0xC5, CHR 0xC6, CHR 0xC7,
          CHR 0xC8, CHR 0xC9, CHR 0xCA, CHR 0xCB, CHR 0xCC, CHR 0xCD, CHR 0xCE, CHR 0xCF,
          CHR 0xD0, CHR 0xD1, CHR 0xD2, CHR 0xD3, CHR 0xD4, CHR 0xD5, CHR 0xD6,
          CHR 0xD8, CHR 0xD9, CHR 0xDA, CHR 0xDB, CHR 0xDC, CHR 0xDD, CHR 0xDE]
         [CHR 0xE0, CHR 0xE1, CHR 0xE2, CHR 0xE3, CHR 0xE4, CHR 0xE5, CHR 0xE6, CHR 0xE7,
          CHR 0xE8, CHR 0xE9, CHR 0xEA, CHR 0xEB, CHR 0xEC, CHR 0xED, CHR 0xEE, CHR 0xEF,
          CHR 0xF0, CHR 0xF1, CHR 0xF2, CHR 0xF3, CHR 0xF4, CHR 0xF5, CHR 0xF6,
          CHR 0xF8, CHR 0xF9, CHR 0xFA, CHR 0xFB, CHR 0xFC, CHR 0xFD, CHR 0xFE]"

definition lower_char :: "char \<Rightarrow> char" where
  "lower_char c = (case map_of lower_table c of None \<Rightarrow> c | Some l \<Rightarrow> l)"

definition lower :: "string \<Rightarrow> string" where
  "lower s = map lower_char s"

subsection \<open>String methods\<close>

text \<open>\<^verbatim>\<open>s.strip()\<close>: white space removed at both ends.\<close>

definition strip :: "string \<Rightarrow> string" where
  "strip s = rev (dropWhile isspace (rev (dropWhile isspace s)))"

text \<open>\<^verbatim>\<open>sub in s\<close>: \<open>sub\<close> occurs in \<open>s\<close> as a substring.\<close>

fun contains :: "string \<Rightarrow> string \<Rightarrow> bool" where
  "contains sub [] = (sub = [])"
| "contains sub (c # cs) = (prefix sub (c # cs) \<or> contains sub cs)"

text \<open>
  \<open>split_on sep [] s\<close> cuts \<open>s\<close> at every separator character and keeps the empty
  pieces: it is \<^verbatim>\<open>s.split('\n')\<close> when \<open>sep\<close> accepts the newline only, and
  \<^verbatim>\<open>re.split(r'[.!?]', s)\<close> when it accepts the three marks.
\<close>

fun split_on :: "(char \<Rightarrow> bool) \<Rightarrow> string \<Rightarrow> string \<Rightarrow> string list" where
  "split_on sep cur [] = [cur]"
| "split_on sep cur (c # cs) =
     (if sep c then cur # split_on sep [] cs else split_on sep (cur @ [c]) cs)"

definition newline :: char where
  "newline = CHR 0x0A"

definition split_lines :: "string \<Rightarrow> string list" where
  "split_lines s = split_on (\<lambda>c. c = newline) [] s"

definition split_sentences :: "string \<Rightarrow> string list" where
  "split_sentences s = split_on (\<lambda>c. c \<in> set ''.!?'') [] s"

text \<open>\<open>split_ws [] s\<close> is \<^verbatim>\<open>s.split()\<close>: the maximal runs without white space.\<close>

fun split_ws :: "string \<Rightarrow> string \<Rightarrow> string list" where
  "split_ws cur [] = (if cur = [] then [] else [cur])"
| "split_ws cur (c # cs) =
     (if isspace c then (if cur = [] then split_ws [] cs else cur # split_ws [] cs)
      else split_ws (cur @ [c]) cs)"

subsection \<open>Regular expressions\<close>

text \<open>
  The fragment of \<^verbatim>\<open>re\<close> that the modelled patterns use: character sets, greedy
  repetition of a character set, sequence, ordered alternation, capturing groups, the
  anchor \<^verbatim>\<open>$\<close> and the word boundary \<^verbatim>\<open>\b\<close>. A matcher state is the character
  before the current position, the text from the current position on, and the groups
  captured so far. \<open>rxm\<close> lists the states a pattern can end in, in the order in which a
  backtracking matcher tries them, so the head of the list is the match Python reports.
  With \<open>ic\<close> (\<^verbatim>\<open>re.IGNORECASE\<close>) a literal matches either case; the ranges of the
  patterns compiled with that flag are ranges of digits, which have no case.
\<close>

datatype cls = Lit char | Range char char | SpaceC | DigitC | WordC

fun cls_match :: "bool \<Rightarrow> cls \<Rightarrow> char \<Rightarrow> bool" where
  "cls_match ic (Lit l) c = (if ic then lower_char c = lower_char l else c = l)"
| "cls_match ic (Range a b) c = (code_point a \<le> code_point c \<and> code_point c \<le> code_point b)"
| "cls_match ic SpaceC c = isspace c"
| "cls_match ic DigitC c = isdigit c"
| "cls_match ic WordC c = isword c"

definition in_class :: "bool \<Rightarrow> cls list \<Rightarrow> char \<Rightarrow> bool" where
  "in_class ic items c = list_ex (\<lambda>i. cls_match ic i c) items"

datatype rx =
    Eps
  | One "cls list"
  | OneOrMore "cls list"
  | ZeroOrMore "cls list"
  | Seq rx rx
  | Alt rx rx
  | Group rx
  | Eos
  | Wordb

type_synonym rstate = "char option \<times> string \<times> string list"

fun step :: "(char \<Rightarrow> bool) \<Rightarrow> rstate \<Rightarrow> rstate list" where
  "step P (prev, [], caps) = []"
| "step P (prev, c # cs, caps) = (if P c then [(Some c, cs, caps)] else [])"

fun advance :: "nat \<Rightarrow> rstate \<Rightarrow> rstate" where
  "advance k (prev, rest, caps) =
     (if k = 0 then prev else Some (rest ! (k - 1)), drop k rest, caps)"

text \<open>Greedy repetition of a character set: the longest run first, then shorter ones
  down to \<open>lo\<close> characters.\<close>

fun greedy :: "nat \<Rightarrow> (char \<Rightarrow> bool) \<Rightarrow> rstate \<Rightarrow> rstate list" where
  "greedy lo P (prev, rest, caps) =
     map (\<lambda>k. advance k (prev, rest, caps)) (rev [lo ..< Suc (length (takeWhile P rest))])"

fun at_boundary :: "rstate \<Rightarrow> bool" where
  "at_boundary (prev, rest, caps) =
     ((case prev of None \<Rightarrow> False | Some c \<Rightarrow> isword c) \<noteq>
      (case rest of [] \<Rightarrow> False | c # _ \<Rightarrow> isword c))"

text \<open>\<^verbatim>\<open>$\<close> without \<^verbatim>\<open>re.MULTILINE\<close>: the end of the text, or just before a
  newline that ends the text.\<close>

fun at_end :: "rstate \<Rightarrow> bool" where
  "at_end (prev, rest, caps) = (rest = [] \<or> rest = [newline])"

fun rxm :: "bool \<Rightarrow> rx \<Rightarrow> rstate \<Rightarrow> rstate list" where
  "rxm ic Eps st = [st]"
| "rxm ic (One items) st = step (in_class ic items) st"
| "rxm ic (OneOrMore items) st = greedy 1 (in_class ic items) st"
| "rxm ic (ZeroOrMore items) st = greedy 0 (in_class ic items) st"
| "rxm ic (Seq a b) st = concat (map (rxm ic b) (rxm ic a st))"
| "rxm ic (Alt a b) st = rxm ic a st @ rxm ic b st"
| "rxm ic (Group a) (prev, rest, caps) =
     map (\<lambda>(prev', rest', caps'). (prev', rest', caps' @ [take (length rest - length rest') rest]))
       (rxm ic a (prev, rest, caps))"
| "rxm ic Eos st = (if at_end st then [st] else [])"
| "rxm ic Wordb st = (if at_boundary st then [st] else [])"

definition seq :: "rx list \<Rightarrow> rx" where
  "seq rs = foldr Seq rs Eps"

definition lit :: "string \<Rightarrow> rx" where
  "lit s = seq (map (\<lambda>c. One [Lit c]) s)"

text \<open>
  \<open>search\<close> is \<^verbatim>\<open>re.search\<close>: the leftmost position with a match. It returns the
  text from the start of the match on and the state at its end.
\<close>

fun search :: "bool \<Rightarrow> rx \<Rightarrow> char option \<Rightarrow> string \<Rightarrow> (string \<times> rstate) option" where
  "search ic r prev [] =
     (case rxm ic r (prev, [], []) of [] \<Rightarrow> None | st # _ \<Rightarrow> Some ([], st))"
| "search ic r prev (c # cs) =
     (case rxm ic r (prev, c # cs, []) of
        [] \<Rightarrow> search ic r (Some c) cs
      | st # _ \<Rightarrow> Some (c # cs, st))"


lemma search_length:
  "search ic r prev rest = Some (rest0, st) \<Longrightarrow> length rest0 \<le> length rest"
proof (induction rest arbitrary: prev)
  case Nil
  then show ?case by (auto split: list.splits)
next
  case (Cons c cs)
  show ?case
  proof (cases "rxm ic r (prev, c # cs, [])")
    case Nil
    with Cons.prems have "search ic r (Some c) cs = Some (rest0, st)" by simp
    from Cons.IH [OF this] show ?thesis by simp
  next
    case (Cons a list)
    with Cons.prems show ?thesis by auto
  qed
qed

text \<open>
  \<open>findall\<close> is \<^verbatim>\<open>re.findall\<close>: the matches from left to right, each search starting
  where the previous match ended. Every entry is the matched text with its groups. The
  patterns of the source never match the empty string; after an empty match the scan moves
  on by one character.
\<close>

function findall_from ::
  "bool \<Rightarrow> rx \<Rightarrow> char option \<Rightarrow> string \<Rightarrow> (string \<times> string list) list" where
  "findall_from ic r prev rest =
     (case search ic r prev rest of
        None \<Rightarrow> []
      | Some (rest0, (prev1, rest1, caps)) \<Rightarrow>
          (take (length rest0 - length rest1) rest0, caps) #
          (if length rest1 < length rest0 then findall_from ic r prev1 rest1
           else (case rest0 of [] \<Rightarrow> [] | c # cs \<Rightarrow> findall_from ic r (Some c) cs)))"
  by pat_completeness auto
termination
proof (relation "measure (\<lambda>(ic, r, prev, rest). length rest)")
  show "wf (measure (\<lambda>(ic, r, prev, rest). length rest))" by simp
next
  fix ic r prev rest x2 rest0 y prev1 y' rest1 caps
  assume "search ic r prev rest = Some x2" "(rest0, y) = x2" "(prev1, y') = y"
    "(rest1, caps) = y'" "length rest1 < length rest0"
  then show "((ic, r, prev1, rest1), (ic, r, prev, rest))
      \<in> measure (\<lambda>(ic, r, prev, rest). length rest)"
    using search_length [of ic r prev rest rest0 "(prev1, rest1, caps)"] by auto
next
  fix ic r prev rest x2 rest0 y c cs
  assume "search ic r prev rest = Some x2" "(rest0, y) = x2" "rest0 = c # cs"
  then show "((ic, r, Some c, cs), (ic, r, prev, rest))
      \<in> measure (\<lambda>(ic, r, prev, rest). length rest)"
    using search_length [of ic r prev rest rest0 y] by auto
qed

definition findall :: "bool \<Rightarrow> rx \<Rightarrow> string \<Rightarrow> (string \<times> string list) list" where
  "findall ic r text = findall_from ic r None text"

section \<open>Dates\<close>

text \<open>
  The part of \<^verbatim>\<open>datetime\<close> the source uses. A \<open>datetime\<close> is a calendar date with
  the time of day in microseconds (below 86400000000); \<open>toordinal\<close> and \<open>weekday\<close> are the methods of
  that name (Monday is 0), and \<open>days_between a b\<close> is \<^verbatim>\<open>(a - b).days\<close>.
\<close>

record datetime =
  year :: nat
  month :: nat
  day :: nat
  time_of_day :: nat

definition is_leap :: "nat \<Rightarrow> bool" where
  "is_leap y = (y mod 4 = 0 \<and> (y mod 400 = 0 \<or> y mod 100 \<noteq> 0))"

definition days_in_month :: "nat \<Rightarrow> nat \<Rightarrow> nat" where
  "days_in_month y m =
     (if m = 2 then (if is_leap y then 29 else 28)
      else if m \<in> set [4, 6, 9, 11] then 30 else 31)"

definition days_before_year :: "nat \<Rightarrow> int" where
  "days_before_year y =
     (let y1 = int y - 1 in y1 * 365 + y1 div 4 - y1 div 100 + y1 div 400)"

definition days_before_month :: "nat \<Rightarrow> nat \<Rightarrow> int" where
  "days_before_month y m = sum_list (map (\<lambda>k. int (days_in_month y k)) [1 ..< m])"

definition toordinal :: "datetime \<Rightarrow> int" where
  "toordinal d = days_before_year (year d) + days_before_month (year d) (month d) + int (day d)"

definition weekday :: "datetime \<Rightarrow> int" where
  "weekday d = (toordinal d + 6) mod 7"

definition microseconds_per_day :: int where
  "microseconds_per_day = 86400000000"

definition days_between :: "datetime \<Rightarrow> datetime \<Rightarrow> int" where
  "days_between a b =
     ((toordinal a - toordinal b) * microseconds_per_day
        + (int (time_of_day a) - int (time_of_day b))) div microseconds_per_day"

text \<open>
  \<^verbatim>\<open>datetime.strptime(s, "%Y-%m-%d")\<close>. The library turns the format into the pattern
  below, compiled with \<^verbatim>\<open>re.IGNORECASE\<close>, matches it at the start of the text, raises
  \<^verbatim>\<open>ValueError\<close> when it does not match or when text remains after the match, and
  raises it again when the numbers are not a date (year 0, 30 February).
\<close>

definition date_rx :: rx where
  "date_rx = seq
     [Group (seq [One [DigitC], One [DigitC], One [DigitC], One [DigitC]]),
      One [Lit CHR ''-''],
      Group (Alt (seq [One [Lit CHR ''1''], One [Range CHR ''0'' CHR ''2'']])
            (Alt (seq [One [Lit CHR ''0''], One [Range CHR ''1'' CHR ''9'']])
                 (One [Range CHR ''1'' CHR ''9'']))),
      One [Lit CHR ''-''],
      Group (Alt (seq [One [Lit CHR ''3''], One [Range CHR ''0'' CHR ''1'']])
            (Alt (seq [One [Range CHR ''1'' CHR ''2''], One [DigitC]])
            (Alt (seq [One [Lit CHR ''0''], One [Range CHR ''1'' CHR ''9'']])
            (Alt (One [Range CHR ''1'' CHR ''9''])
                 (seq [One [Lit CHR '' ''], One [Range CHR ''1'' CHR ''9'']])))))]"

text \<open>\<^verbatim>\<open>int(s)\<close> on a text of decimal digits, white space around them ignored.\<close>

definition int_of_digits :: "string \<Rightarrow> nat" where
  "int_of_digits s = foldl (\<lambda>a c. 10 * a + (code_point c - 48)) 0 (strip s)"

fun date_of_groups :: "string list \<Rightarrow> py_error + datetime" where
  "date_of_groups [Y, m, d] =
     (let y = int_of_digits Y; mo = int_of_digits m; dd = int_of_digits d in
      if y < 1 then Inl (ValueError ''year is out of range'')
      else if dd > days_in_month y mo then Inl (ValueError ''day is out of range for month'')
      else Inr \<lparr>year = y, month = mo, day = dd, time_of_day = 0\<rparr>)"
| "date_of_groups caps = Inl (ValueError ''time data does not match format'')"

fun date_of_match :: "rstate list \<Rightarrow> py_error + datetime" where
  "date_of_match [] = Inl (ValueError ''time data does not match format'')"
| "date_of_match ((prev, rest, caps) # others) =
     (if rest \<noteq> [] then Inl (ValueError ''unconverted data remains'')
      else date_of_groups caps)"

definition strptime :: "string \<Rightarrow> py_error + datetime" where
  "strptime s = date_of_match (rxm True date_rx (None, s, []))"

text \<open>Decimal numerals and \<^verbatim>\<open>strftime\<close> with the formats \<^verbatim>\<open>%Y-%m-%d\<close> and
  \<^verbatim>\<open>%Y%m%d\<close> (the year is not padded, month and day have two digits).\<close>

fun str_nat :: "nat \<Rightarrow> string" where
  "str_nat n =
     (if n < 10 then [''0123456789'' ! n]
      else str_nat (n div 10) @ [''0123456789'' ! (n mod 10)])"

declare str_nat.simps [simp del]

definition pad2 :: "nat \<Rightarrow> string" where
  "pad2 n = (if n < 10 then ''0'' @ str_nat n else str_nat n)"

definition strftime_dashed :: "datetime \<Rightarrow> string" where
  "strftime_dashed d = str_nat (year d) @ ''-'' @ pad2 (month d) @ ''-'' @ pad2 (day d)"

definition strftime_compact :: "datetime \<Rightarrow> string" where
  "strftime_compact d = str_nat (year d) @ pad2 (month d) @ pad2 (day d)"

section \<open>Fraud detector (fraud\_detector.py)\<close>

text \<open>
  The three dictionaries that \<^verbatim>\<open>detect_fraud\<close> receives are records; a key that may
  be absent is an optional field, and \<open>dict_get\<close> is \<^verbatim>\<open>d.get(key, default)\<close>.
\<close>

definition dict_get :: "'a option \<Rightarrow> 'a \<Rightarrow> 'a" where
  "dict_get field dflt = (case field of None \<Rightarrow> dflt | Some v \<Rightarrow> v)"

record claim_data =
  description :: "string option"
  report_date :: "string option"
  items :: "string list option"
  image_analysis :: "string option"
  police_report :: "bool option"

record policyholder =
  name :: "string option"
  email :: "string option"
  phone :: "string option"
  address :: "string option"

record coverage_details =
  dwelling :: "real option"
  personal_property :: "real option"
  liability :: "real option"
  deductible :: "real option"

record policy_data =
  policy_id :: "string option"
  policy_number :: "string option"
  policy_type :: "string option"
  coverage_amount :: "real option"
  premium_amount :: "real option"
  start_date :: "string option"
  end_date :: "string option"
  policy_status :: "string option"
  policyholder :: "policyholder option"
  coverage_details :: "coverage_details option"

record past_claim =
  past_claim_number :: string
  past_date :: string
  past_amount :: real
  past_status :: string

record customer_history =
  history_email :: "string option"
  total_claims :: "int option"
  recent_claims :: "int option"
  claim_history :: "past_claim list option"

record fraud_result =
  fraud_score :: real
  risk_category :: string
  indicators_found :: "string list"
  recommended_action :: string

text \<open>The table \<^verbatim>\<open>self.fraud_indicators\<close>, as the constructor writes it.\<close>

definition indicator_table :: "(string \<times> (string \<times> real) list) list" where
  "indicator_table =
     [(''timing'',
         [(''recent_policy'', 0.7), (''weekend_claim'', 0.3), (''night_claim'', 0.4),
          (''holiday_claim'', 0.5)]),
      (''content'',
         [(''vague_description'', 0.6), (''excessive_items'', 0.5), (''high_value_items'', 0.4),
          (''no_receipts'', 0.3), (''no_photos'', 0.5)]),
      (''history'',
         [(''multiple_claims'', 0.7), (''previous_denials'', 0.8), (''policy_changes'', 0.5)]),
      (''red_flags'',
         [(''water_damage_no_weather'', 0.7), (''theft_no_police_report'', 0.8),
          (''fire_no_fire_dept'', 0.7), (''inconsistent_statements'', 0.9)])]"

text \<open>\<^verbatim>\<open>self.fraud_indicators[group][key]\<close>. The seven lookups of
  \<^verbatim>\<open>detect_fraud\<close> name keys of the table, so the default is never taken.\<close>

definition indicator_weight :: "string \<Rightarrow> string \<Rightarrow> real" where
  "indicator_weight grp key =
     (case map_of indicator_table grp of
        None \<Rightarrow> 0
      | Some table \<Rightarrow> dict_get (map_of table key) 0)"

text \<open>
  \<^verbatim>\<open>_check_recent_policy\<close> reads the clock: \<open>now\<close> is the value of
  \<^verbatim>\<open>datetime.now()\<close> at the call. Its bare \<^verbatim>\<open>except\<close> turns a date that does
  not parse into \<^verbatim>\<open>False\<close>.
\<close>

definition check_recent_policy :: "datetime \<Rightarrow> policy_data \<Rightarrow> bool" where
  "check_recent_policy now policy =
     (case strptime (dict_get (start_date policy) '''') of
        Inl e \<Rightarrow> False
      | Inr policy_start \<Rightarrow>
          (let days_active = days_between now policy_start in days_active < 30))"

definition check_weekend_claim :: "claim_data \<Rightarrow> bool" where
  "check_weekend_claim claim =
     (case strptime (dict_get (report_date claim) '''') of
        Inl e \<Rightarrow> False
      | Inr claim_date \<Rightarrow> weekday claim_date \<ge> 5)"

definition check_vague_description :: "claim_data \<Rightarrow> bool" where
  "check_vague_description claim =
     (let word_count = length (split_ws [] (dict_get (description claim) ''''))
      in word_count < 20)"

definition check_excessive_items :: "claim_data \<Rightarrow> bool" where
  "check_excessive_items claim = (length (dict_get (items claim) []) > 15)"

definition check_multiple_claims :: "customer_history \<Rightarrow> bool" where
  "check_multiple_claims history = (dict_get (recent_claims history) 0 \<ge> 3)"

definition check_water_damage_no_weather :: "claim_data \<Rightarrow> bool" where
  "check_water_damage_no_weather claim =
     (let text = lower (dict_get (description claim) '''');
          has_water_damage = (contains ''water damage'' text \<or> contains ''flood'' text);
          has_weather_event = (contains ''rain'' text \<or> contains ''storm'' text)
      in has_water_damage \<and> \<not> has_weather_event)"

definition check_theft_no_police_report :: "claim_data \<Rightarrow> bool" where
  "check_theft_no_police_report claim =
     (let text = lower (dict_get (description claim) '''');
          has_theft = (contains ''theft'' text \<or> contains ''stolen'' text);
          has_police_report = dict_get (police_report claim) False
      in has_theft \<and> \<not> has_police_report)"

text \<open>One step of \<^verbatim>\<open>detect_fraud\<close>: a rule that holds adds its weight to the running
  score and appends its indicator.\<close>

definition flag :: "bool \<Rightarrow> real \<Rightarrow> string \<Rightarrow> real \<times> string list \<Rightarrow> real \<times> string list" where
  "flag triggered w label acc =
     (if triggered then (fst acc + w, snd acc @ [label]) else acc)"

text \<open>The seven checks of \<^verbatim>\<open>detect_fraud\<close> in their order; the result is the raw
  score and the indicators found.\<close>

definition accumulate ::
  "datetime \<Rightarrow> claim_data \<Rightarrow> policy_data \<Rightarrow> customer_history \<Rightarrow> real \<times> string list" where
  "accumulate now claim policy history =
     (flag (check_theft_no_police_report claim)
        (indicator_weight ''red_flags'' ''theft_no_police_report'')
        ''Theft claim without police report''
     (flag (check_water_damage_no_weather claim)
        (indicator_weight ''red_flags'' ''water_damage_no_weather'')
        ''Water damage claim without weather event''
     (flag (check_multiple_claims history)
        (indicator_weight ''history'' ''multiple_claims'')
        ''Multiple recent claims''
     (flag (check_excessive_items claim)
        (indicator_weight ''content'' ''excessive_items'')
        ''Excessive number of items claimed''
     (flag (check_vague_description claim)
        (indicator_weight ''content'' ''vague_description'')
        ''Vague claim description''
     (flag (check_weekend_claim claim)
        (indicator_weight ''timing'' ''weekend_claim'')
        ''Claim filed on weekend''
     (flag (check_recent_policy now policy)
        (indicator_weight ''timing'' ''recent_policy'')
        ''Recent policy creation''
     (0, []))))))))"

definition detect_fraud ::
  "datetime \<Rightarrow> claim_data \<Rightarrow> policy_data \<Rightarrow> customer_history \<Rightarrow> fraud_result" where
  "detect_fraud now claim policy history =
     (let acc = accumulate now claim policy history;
          raw_score = fst acc;
          fraud_indicators_found = snd acc;
          normalized_score = min (raw_score / 5.0) 1.0;
          category =
            (if normalized_score > 0.7 then ''High''
             else if normalized_score > 0.3 then ''Medium''
             else ''Low'');
          action =
            (if category = ''High'' then ''Escalate for investigation''
             else if category = ''Medium'' then ''Request additional documentation''
             else ''Process claim normally'')
      in \<lparr>fraud_score = normalized_score,
          risk_category = category,
          indicators_found = fraud_indicators_found,
          recommended_action = action\<rparr>)"

text \<open>
  \<^verbatim>\<open>_fraud_detection_tool\<close> parses three JSON texts, calls \<^verbatim>\<open>detect_fraud\<close> and
  prints the result as JSON; an exception becomes the object \<^verbatim>\<open>{"error": ...}\<close>
  (\<open>Inl\<close> here). The JSON texts are modelled by the values they encode.
\<close>

definition fraud_detection_tool ::
  "datetime \<Rightarrow> claim_data \<Rightarrow> policy_data \<Rightarrow> customer_history \<Rightarrow> string + fraud_result" where
  "fraud_detection_tool now claim policy history = Inr (detect_fraud now claim policy history)"

section \<open>Risk model (risk\_model.py)\<close>

record risk_assessment =
  risk_score :: real
  risk_category :: string
  recommended_coverage :: real
  annual_premium :: real
  monthly_premium :: real
  item_risk_contribution :: real
  location_risk_contribution :: real

definition property_risk_factors :: "(string \<times> real) list" where
  "property_risk_factors =
     [(''electronics'', 1.2), (''jewelry'', 1.5), (''art'', 1.3), (''furniture'', 1.1),
      (''appliances'', 1.15), (''sports_equipment'', 1.05), (''musical_instruments'', 1.25)]"

definition location_risk_factors :: "(string \<times> real) list" where
  "location_risk_factors =
     [(''flood_zone'', 1.4), (''high_crime'', 1.3), (''wildfire_prone'', 1.35),
      (''hurricane_prone'', 1.45), (''earthquake_prone'', 1.5), (''urban'', 1.1),
      (''suburban'', 1.0), (''rural'', 0.95)]"

text \<open>Python's \<^verbatim>\<open>a / b\<close>: a zero divisor raises.\<close>

definition py_div :: "real \<Rightarrow> real \<Rightarrow> py_error + real" where
  "py_div a b = (if b = 0 then Inl ZeroDivisionError else Inr (a / b))"

text \<open>
  The first loop of \<^verbatim>\<open>assess_risk\<close> over \<^verbatim>\<open>items.items()\<close>: the inventory is
  the list of the dictionary's entries, a category with its count. \<open>weighted\<close> is
  \<^verbatim>\<open>risk_factor * count\<close> for one entry, and the loop returns the weighted sum and the
  total count.
\<close>

definition weighted :: "string \<times> int \<Rightarrow> real" where
  "weighted entry =
     dict_get (map_of property_risk_factors (lower (fst entry))) 1.0 * real_of_int (snd entry)"

definition item_totals :: "(string \<times> int) list \<Rightarrow> real \<times> int" where
  "item_totals inventory =
     foldl (\<lambda>acc entry. (fst acc + weighted entry, snd acc + snd entry)) (0, 0) inventory"

text \<open>The normalisation: the division is under the guard \<^verbatim>\<open>total_items > 0\<close>.\<close>

definition normalize_item_risk :: "real \<Rightarrow> int \<Rightarrow> py_error + real" where
  "normalize_item_risk item_risk total_items =
     (if total_items > 0 then py_div item_risk (real_of_int total_items) else Inr item_risk)"

definition location_product :: "string list \<Rightarrow> real" where
  "location_product location_factors =
     foldl (\<lambda>location_risk factor.
              case map_of location_risk_factors (lower factor) of
                None \<Rightarrow> location_risk
              | Some w \<Rightarrow> location_risk * w)
       1.0 location_factors"

definition assess_risk :: "(string \<times> int) list \<Rightarrow> string list \<Rightarrow> py_error + risk_assessment" where
  "assess_risk inventory location_factors =
     (let base_risk = 1.0;
          total_items = snd (item_totals inventory)
      in case normalize_item_risk (fst (item_totals inventory)) total_items of
           Inl e \<Rightarrow> Inl e
         | Inr item_risk \<Rightarrow>
             (let location_risk = location_product location_factors;
                  overall_risk = base_risk * item_risk * location_risk;
                  category =
                    (if overall_risk < 1.0 then ''Low''
                     else if overall_risk > 1.5 then ''High''
                     else ''Medium'');
                  base_coverage = 50000;
                  per_item_coverage = 1000;
                  total_coverage = base_coverage + real_of_int total_items * per_item_coverage;
                  adjusted_coverage = total_coverage * overall_risk;
                  annual = adjusted_coverage * 0.02;
                  monthly = annual / 12
              in Inr \<lparr>risk_score = overall_risk,
                      risk_category = category,
                      recommended_coverage = adjusted_coverage,
                      annual_premium = annual,
                      monthly_premium = monthly,
                      item_risk_contribution = item_risk,
                      location_risk_contribution = location_risk\<rparr>))"

section \<open>Document analyzer (doc\_analyzer.py)\<close>

text \<open>\<^verbatim>\<open>max(xs)\<close> and \<^verbatim>\<open>xs[0]\<close>, which raise on an empty list.\<close>

fun py_max :: "nat list \<Rightarrow> py_error + nat" where
  "py_max [] = Inl (ValueError ''max() arg is an empty sequence'')"
| "py_max (x # xs) = Inr (foldl max x xs)"

fun first :: "'a list \<Rightarrow> py_error + 'a" where
  "first [] = Inl IndexError"
| "first (x # xs) = Inr x"














section \<open>Sentiment analyzer (sentiment\_analyzer.py)\<close>

definition positive_words :: "string list" where
  "positive_words =
     [''good'', ''great'', ''excellent'', ''amazing'', ''wonderful'', ''fantastic'',
      ''helpful'', ''satisfied'', ''happy'', ''pleased'', ''love'', ''like'', ''best'',
      ''thank'', ''thanks'', ''appreciate'', ''outstanding'', ''perfect'', ''awesome'',
      ''easy'', ''clear'', ''fast'', ''quick'', ''responsive'', ''friendly'', ''efficient'']"

definition negative_words :: "string list" where
  "negative_words =
     [''bad'', ''poor'', ''terrible'', ''awful'', ''horrible'', ''disappointing'',
      ''frustrated'', ''unhappy'', ''dissatisfied'', ''angry'', ''upset'', ''hate'',
      ''dislike'', ''worst'', ''slow'', ''difficult'', ''confusing'', ''complicated'',
      ''expensive'', ''overpriced'', ''rude'', ''unprofessional'', ''inefficient'',
      ''problem'', ''issue'', ''complaint'', ''error'', ''mistake'', ''delay'', ''fail'']"

definition neutral_words :: "string list" where
  "neutral_words =
     [''okay'', ''ok'', ''fine'', ''average'', ''neutral'', ''fair'', ''decent'',
      ''acceptable'', ''moderate'', ''standard'', ''normal'', ''regular'', ''usual'']"

definition emotion_words :: "(string \<times> string list) list" where
  "emotion_words =
     [(''anger'', [''angry'', ''furious'', ''outraged'', ''mad'', ''irritated'', ''annoyed'']),
      (''frustration'', [''frustrated'', ''stuck'', ''difficult'', ''confusing'', ''complicated'']),
      (''satisfaction'', [''satisfied'', ''pleased'', ''content'', ''happy'', ''glad'']),
      (''confusion'', [''confused'', ''unclear'', ''unsure'', ''uncertain'', ''puzzled'']),
      (''urgency'', [''urgent'', ''immediately'', ''asap'', ''emergency'', ''quickly'', ''soon''])]"

definition intensity_modifiers :: "(string \<times> real) list" where
  "intensity_modifiers =
     [(''very'', 1.5), (''extremely'', 2.0), (''really'', 1.5), (''somewhat'', 0.5),
      (''slightly'', 0.3), (''a bit'', 0.3), (''absolutely'', 2.0), (''completely'', 1.8),
      (''totally'', 1.8)]"

text \<open>\<^verbatim>\<open>re.findall(r'\b\w+\b', text)\<close>: the words of a text.\<close>

definition word_rx :: rx where
  "word_rx = seq [Wordb, OneOrMore [WordC], Wordb]"

definition tokens :: "string \<Rightarrow> string list" where
  "tokens text = map fst (findall False word_rx text)"

text \<open>\<^verbatim>\<open>sum(1 for word in words if word in lexicon)\<close>.\<close>

definition count_in :: "string list \<Rightarrow> string list \<Rightarrow> nat" where
  "count_in lexicon ws = length (filter (\<lambda>word. word \<in> set lexicon) ws)"

text \<open>
  \<^verbatim>\<open>re.findall(rf"{modifier}\s+(\w+)", text)\<close>: with one group in the pattern the
  result lists the text of that group for every match. The modifiers are letters and, in
  one of them, a space, which stand for themselves in a pattern.
\<close>

fun group_text :: "string \<times> string list \<Rightarrow> string" where
  "group_text (whole, []) = whole"
| "group_text (whole, g # gs) = g"

definition modifier_rx :: "string \<Rightarrow> rx" where
  "modifier_rx modifier = seq [lit modifier, OneOrMore [SpaceC], Group (OneOrMore [WordC])]"

definition modified_words :: "string \<Rightarrow> string \<Rightarrow> string list" where
  "modified_words modifier text = map group_text (findall False (modifier_rx modifier) text)"

text \<open>The body of the inner loop, for one word that follows a modifier.\<close>

definition adjust :: "nat \<Rightarrow> real \<Rightarrow> real \<Rightarrow> string \<Rightarrow> real" where
  "adjust total_sentiment_words multiplier sentiment_score match =
     (let unit_weight = (if total_sentiment_words > 0 then 1 / real total_sentiment_words else 0.1)
      in if match \<in> set positive_words then sentiment_score + (multiplier - 1) * unit_weight
         else if match \<in> set negative_words then sentiment_score - (multiplier - 1) * unit_weight
         else sentiment_score)"

text \<open>The body of the outer loop, for one entry of \<^verbatim>\<open>intensity_modifiers\<close>.\<close>

definition apply_modifier :: "nat \<Rightarrow> string \<Rightarrow> real \<Rightarrow> string \<times> real \<Rightarrow> real" where
  "apply_modifier total_sentiment_words text sentiment_score entry =
     (if contains (fst entry) text
      then foldl (adjust total_sentiment_words (snd entry)) sentiment_score
             (modified_words (fst entry) text)
      else sentiment_score)"

text \<open>The emotions found, in the order of \<^verbatim>\<open>emotion_words\<close>, and the two with the
  highest counts: \<^verbatim>\<open>sorted(..., reverse=True)\<close> is stable, as \<^const>\<open>sort_key\<close> is.\<close>

definition emotion_counts :: "string list \<Rightarrow> (string \<times> nat) list" where
  "emotion_counts ws =
     filter (\<lambda>(emotion, emotion_count). emotion_count > 0)
       (map (\<lambda>(emotion, lexicon). (emotion, count_in lexicon ws)) emotion_words)"

definition top_emotions :: "string list \<Rightarrow> (string \<times> nat) list" where
  "top_emotions ws = take 2 (sort_key (\<lambda>(emotion, emotion_count). - int emotion_count) (emotion_counts ws))"

text \<open>\<^verbatim>\<open>_extract_key_phrases\<close>.\<close>

definition is_key_phrase :: "string \<Rightarrow> bool" where
  "is_key_phrase sentence =
     (let ws = tokens (lower sentence);
          has_sentiment = list_ex (\<lambda>word. word \<in> set positive_words \<or> word \<in> set negative_words) ws
      in has_sentiment \<and> 3 \<le> length ws \<and> length ws \<le> 15)"

definition extract_key_phrases :: "string \<Rightarrow> string list" where
  "extract_key_phrases text =
     take 3 (filter is_key_phrase
               (filter (\<lambda>sentence. sentence \<noteq> []) (map strip (split_sentences text))))"

record sentiment_result =
  sentiment :: string
  sentiment_score :: real
  positive_count :: nat
  negative_count :: nat
  neutral_count :: nat
  emotions :: "(string \<times> nat) list"
  key_phrases :: "string list"

definition base_score :: "nat \<Rightarrow> nat \<Rightarrow> nat \<Rightarrow> real" where
  "base_score pos neg total_sentiment_words =
     (if total_sentiment_words = 0 then 0
      else (real pos - real neg) / real total_sentiment_words)"

definition analyze_sentiment :: "string \<Rightarrow> sentiment_result" where
  "analyze_sentiment raw_text =
     (let text = lower raw_text;
          ws = tokens text;
          pos = count_in positive_words ws;
          neg = count_in negative_words ws;
          neu = count_in neutral_words ws;
          total_sentiment_words = pos + neg + neu;
          adjusted = foldl (apply_modifier total_sentiment_words text)
                       (base_score pos neg total_sentiment_words) intensity_modifiers;
          score = max (- 1) (min 1 adjusted);
          label =
            (if score > 0.3 then ''positive''
             else if score < - 0.3 then ''negative''
             else ''neutral'')
      in \<lparr>sentiment = label,
          sentiment_score = score,
          positive_count = pos,
          negative_count = neg,
          neutral_count = neu,
          emotions = top_emotions ws,
          key_phrases = extract_key_phrases text\<rparr>)"

section \<open>Query categories (customer.py)\<close>

text \<open>The table \<^verbatim>\<open>categories\<close> of \<^verbatim>\<open>_categorize_query\<close>, in its order.\<close>

definition categories :: "(string \<times> string list) list" where
  "categories =
     [(''policy_info'',
         [''policy'', ''coverage'', ''covered'', ''insured'', ''premium'', ''deductible'']),
      (''claim_status'',
         [''claim'', ''status'', ''payment'', ''reimbursement'', ''approved'', ''denied'',
          ''process'']),
      (''billing'',
         [''bill'', ''payment'', ''pay'', ''invoice'', ''charge'', ''fee'', ''cost'', ''price'',
          ''expensive'']),
      (''technical_support'',
         [''website'', ''app'', ''login'', ''password'', ''reset'', ''account'', ''access'',
          ''error'']),
      (''coverage_question'',
         [''cover'', ''covered'', ''include'', ''protect'', ''damage'', ''loss'', ''theft'',
          ''accident'']),
      (''complaint'',
         [''unhappy'', ''dissatisfied'', ''disappointed'', ''problem'', ''issue'', ''wrong'',
          ''mistake'', ''error'', ''complaint''])]"

text \<open>The score of a category: one for each of its keywords that occurs in the
  lower-cased query.\<close>

definition keyword_score :: "string \<Rightarrow> string list \<Rightarrow> nat" where
  "keyword_score query_lower keywords =
     length (filter (\<lambda>keyword. contains keyword query_lower) keywords)"

definition category_scores :: "string \<Rightarrow> (string \<times> nat) list" where
  "category_scores query =
     map (\<lambda>(category, keywords). (category, keyword_score (lower query) keywords)) categories"

definition categorize_query :: "string \<Rightarrow> py_error + string" where
  "categorize_query query =
     (let scores = category_scores query in
      case py_max (map snd scores) of
        Inl e \<Rightarrow> Inl e
      | Inr max_score \<Rightarrow>
          if max_score = 0 then Inr ''general_inquiry''
          else first (map fst (filter (\<lambda>(c, s). s = max_score) scores)))"

section \<open>Claims processor (claims.py)\<close>

text \<open>The status decision of \<^verbatim>\<open>process_claim\<close> (lines 61 to 66): the status starts
  as \<^verbatim>\<open>"Approved"\<close> and an \<^verbatim>\<open>if/elif\<close> chain on the fraud score overwrites it.\<close>

definition claim_status :: "real \<Rightarrow> string" where
  "claim_status score =
     (if score > 0.5 then ''Under Review''
      else if score > 0.7 then ''Rejected''
      else ''Approved'')"

text \<open>\<^verbatim>\<open>any(word in text.lower() for word in words)\<close>.\<close>

definition mentions :: "string list \<Rightarrow> string \<Rightarrow> bool" where
  "mentions ws text = list_ex (\<lambda>word. contains word (lower text)) ws"

definition extract_items_from_analysis :: "string \<Rightarrow> string list" where
  "extract_items_from_analysis analysis_text =
     (let lines = filter (\<lambda>line. line \<noteq> []) (map strip (split_lines analysis_text));
          found = filter (mentions [''item'', ''object'', ''damaged'', ''broken'', ''stolen'']) lines;
          sentences = map strip (split_sentences analysis_text);
          result =
            (if found = []
             then filter (mentions [''see'', ''visible'', ''appears'', ''showing'', ''contains''])
                    sentences
             else found)
      in take 10 result)"

definition get_item_value :: "string \<Rightarrow> int" where
  "get_item_value item =
     (let item_lower = lower item in
      if contains ''tv'' item_lower \<or> contains ''television'' item_lower then 500
      else if contains ''computer'' item_lower \<or> contains ''laptop'' item_lower then 1000
      else if contains ''phone'' item_lower \<or> contains ''smartphone'' item_lower then 800
      else if contains ''jewelry'' item_lower then 2000
      else if contains ''furniture'' item_lower then 1500
      else if contains ''appliance'' item_lower then 1200
      else 500)"

text \<open>The empty dictionaries that \<^verbatim>\<open>.get(key, {})\<close> falls back to.\<close>

definition no_policyholder :: policyholder where
  "no_policyholder = \<lparr>name = None, email = None, phone = None, address = None\<rparr>"

definition no_coverage_details :: coverage_details where
  "no_coverage_details =
     \<lparr>dwelling = None, personal_property = None, liability = None, deductible = None\<rparr>"

text \<open>\<^verbatim>\<open>_calculate_claim_amount\<close>; \<^verbatim>\<open>claim_data["items"]\<close> raises when the key
  is absent.\<close>

definition calculate_claim_amount :: "claim_data \<Rightarrow> policy_data \<Rightarrow> py_error + real" where
  "calculate_claim_amount claim policy =
     (case items claim of
        None \<Rightarrow> Inl (KeyError ''items'')
      | Some claimed \<Rightarrow>
          (let base_amount = 1000;
               items_value = sum_list (map get_item_value claimed);
               coverage = dict_get (coverage_amount policy) 50000;
               max_claim = min (real_of_int (items_value + base_amount)) coverage;
               excess = dict_get (deductible (dict_get (coverage_details policy) no_coverage_details)) 500;
               final_amount = max 0 (max_claim - excess)
           in Inr final_amount))"

definition get_next_steps :: "string \<Rightarrow> string list" where
  "get_next_steps status_text =
     (if status_text = ''Approved'' then
        [''Claim has been approved'',
         ''Payment will be processed within 5-7 business days'',
         ''You will receive an email confirmation once payment is sent'',
         ''Contact customer support if you have any questions'']
      else if status_text = ''Under Review'' then
        [''Claim requires additional review'',
         ''A claims adjuster will contact you within 48 hours'',
         ''Please have any supporting documentation ready'',
         ''You may be asked to provide additional information'']
      else
        [''Claim has been rejected'',
         ''Please review the rejection reasons provided'',
         ''You may appeal this decision within 30 days'',
         ''Contact customer support for assistance with the appeal process''])"

text \<open>The fixed records that \<^verbatim>\<open>_get_policy_data\<close> and
  \<^verbatim>\<open>_get_customer_history\<close> return.\<close>

definition get_policy_data :: "string \<Rightarrow> policy_data" where
  "get_policy_data number =
     \<lparr>policy_id = Some ''policy_123'',
      policy_number = Some number,
      policy_type = Some ''Home Insurance'',
      coverage_amount = Some 250000,
      premium_amount = Some 1200,
      start_date = Some ''2025-01-01'',
      end_date = Some ''2026-01-01'',
      policy_status = Some ''Active'',
      policyholder = Some
        \<lparr>name = Some ''John Smith'',
         email = Some ''john.smith@example.com'',
         phone = Some ''555-123-4567'',
         address = Some ''123 Main St, Anytown, USA''\<rparr>,
      coverage_details = Some
        \<lparr>dwelling = Some 200000,
         personal_property = Some 100000,
         liability = Some 300000,
         deductible = Some 1000\<rparr>\<rparr>"

definition get_customer_history :: "string \<Rightarrow> customer_history" where
  "get_customer_history address_text =
     \<lparr>history_email = Some address_text,
      total_claims = Some 2,
      recent_claims = Some 1,
      claim_history = Some
        [\<lparr>past_claim_number = ''CLM-20240315-1234'', past_date = ''2024-03-15'',
          past_amount = 1500, past_status = ''Paid''\<rparr>,
         \<lparr>past_claim_number = ''CLM-20230710-5678'', past_date = ''2023-07-10'',
          past_amount = 2200, past_status = ''Paid''\<rparr>]\<rparr>"

record assessment =
  claim_number :: string
  policy_number :: string
  status :: string
  fraud_score :: real
  fraud_indicators :: "string list"
  claim_amount :: real
  items_claimed :: "string list"
  next_steps :: "string list"

text \<open>The record written to the store, without its three time stamps, and the entry of
  the activity log, without its execution time and time stamp.\<close>

record db_claim =
  db_claim_number :: string
  db_policy_id :: string
  db_description :: string
  db_status :: string
  db_amount_requested :: real
  db_amount_approved :: real
  db_fraud_score :: real

record log_data =
  log_agent_type :: string
  log_action :: string
  log_input :: "string \<times> string \<times> string"
  log_output :: "string + assessment"
  log_success :: bool

text \<open>
  What \<^verbatim>\<open>process_claim\<close> reaches outside the processor: the vision service
  (\<open>analyze_image\<close> gives the \<^verbatim>\<open>raw_analysis\<close> text or raises), the two writes to
  the store, the rendering of the display text (\<^verbatim>\<open>_format_claim_assessment\<close>, left
  abstract), \<^verbatim>\<open>print\<close> (\<open>print_line\<close> writes one line to the standard output),
  Python's \<^verbatim>\<open>hash\<close> of a text, and the three readings of the clock that enter the
  result: for the report date, inside the recent-policy check, and for the claim number.
  Each collaborator may raise any exception.
\<close>

record env =
  analyze_image :: "string \<Rightarrow> py_error + string"
  db_create_claim :: "db_claim \<Rightarrow> py_error + unit"
  db_log_agent_activity :: "log_data \<Rightarrow> py_error + unit"
  format_claim_assessment :: "assessment \<Rightarrow> string \<Rightarrow> py_error + string"
  print_line :: "string \<Rightarrow> py_error + unit"
  hash_text :: "string \<Rightarrow> int"
  now_report :: datetime
  now_check :: datetime
  now_number :: datetime

text \<open>
  \<^verbatim>\<open>_detect_fraud\<close> sends the three dictionaries through JSON to
  \<^verbatim>\<open>_fraud_detection_tool\<close> and parses its reply, which is the result or the
  object \<^verbatim>\<open>{"error": ...}\<close>. Its own \<^verbatim>\<open>except\<close> clause, which returns a fixed
  low-risk result, covers a failure of the JSON conversion, which the model does not have.
\<close>

definition processor_detect_fraud ::
  "env \<Rightarrow> claim_data \<Rightarrow> policy_data \<Rightarrow> customer_history \<Rightarrow> string + fraud_result" where
  "processor_detect_fraud world claim policy history =
     fraud_detection_tool (now_check world) claim policy history"

text \<open>\<^verbatim>\<open>print(f"{label}{e}")\<close>: the text of the exception is produced first, then
  the line is written; either step may raise.\<close>

definition print_error :: "env \<Rightarrow> string \<Rightarrow> py_error \<Rightarrow> py_error + unit" where
  "print_error world label e =
     (case str_of_error e of
        Inl raised \<Rightarrow> Inl raised
      | Inr msg \<Rightarrow> print_line world (label @ msg))"

text \<open>The write to the store inside its own \<^verbatim>\<open>try/except\<close>, and
  \<^verbatim>\<open>_log_agent_activity\<close>, whose whole body is in one: the handler prints the
  failure and drops it.\<close>

definition save_claim :: "env \<Rightarrow> db_claim \<Rightarrow> py_error + unit" where
  "save_claim world row =
     try_except (db_create_claim world row)
       (\<lambda>db_error. print_error world ''Database error: '' db_error)"

definition log_agent_activity :: "env \<Rightarrow> log_data \<Rightarrow> py_error + unit" where
  "log_agent_activity world entry =
     try_except (db_log_agent_activity world entry)
       (\<lambda>e. print_error world ''Error logging agent activity: '' e)"

text \<open>The number \<^verbatim>\<open>f"CLM-{now:%Y%m%d}-{hash(...) % 10000:04d}"\<close>.\<close>

definition pad4 :: "nat \<Rightarrow> string" where
  "pad4 n = replicate (4 - length (str_nat n)) CHR ''0'' @ str_nat n"

definition make_claim_number :: "env \<Rightarrow> string \<Rightarrow> string \<Rightarrow> string" where
  "make_claim_number world number claim_description =
     ''CLM-'' @ strftime_compact (now_number world) @ ''-''
       @ pad4 (nat (hash_text world (number @ claim_description) mod 10000))"

record process_result =
  success :: bool
  claim_assessment :: "assessment option"
  formatted_assessment :: "string option"
  error :: "string option"

text \<open>The body of the \<^verbatim>\<open>try\<close> block of \<^verbatim>\<open>process_claim\<close>. The execution time
  that the result also carries is not modelled.\<close>

definition finish_claim ::
  "env \<Rightarrow> string \<Rightarrow> string \<Rightarrow> string \<Rightarrow> string \<Rightarrow> claim_data \<Rightarrow> policy_data
     \<Rightarrow> fraud_result \<Rightarrow> real \<Rightarrow> py_error + process_result" where
  "finish_claim world image_path number claim_description raw_analysis claim policy
       fraud_detection_result amount =
     (let decided = claim_status (fraud_result.fraud_score fraud_detection_result);
          issued = make_claim_number world number claim_description;
          result =
            \<lparr>claim_number = issued,
             policy_number = number,
             status = decided,
             fraud_score = fraud_result.fraud_score fraud_detection_result,
             fraud_indicators = indicators_found fraud_detection_result,
             claim_amount = amount,
             items_claimed = dict_get (items claim) [],
             next_steps = get_next_steps decided\<rparr>;
          row =
            \<lparr>db_claim_number = issued,
             db_policy_id = dict_get (policy_id policy) ''unknown'',
             db_description = claim_description,
             db_status = decided,
             db_amount_requested = amount,
             db_amount_approved = (if decided = ''Approved'' then amount else 0),
             db_fraud_score = fraud_result.fraud_score fraud_detection_result\<rparr>;
          entry =
            \<lparr>log_agent_type = ''Claims Processor'',
             log_action = ''Claim Processing'',
             log_input = (image_path, number, claim_description),
             log_output = Inr result,
             log_success = True\<rparr>
      in case save_claim world row of
           Inl e \<Rightarrow> Inl e
         | Inr saved \<Rightarrow>
             (case log_agent_activity world entry of
                Inl e \<Rightarrow> Inl e
              | Inr logged \<Rightarrow>
                  (case format_claim_assessment world result raw_analysis of
                     Inl e \<Rightarrow> Inl e
                   | Inr formatted \<Rightarrow>
                       Inr \<lparr>success = True,
                            claim_assessment = Some result,
                            formatted_assessment = Some formatted,
                            error = None\<rparr>)))"

definition process_claim_body :: "env \<Rightarrow> string \<Rightarrow> string \<Rightarrow> string \<Rightarrow> py_error + process_result" where
  "process_claim_body world image_path number claim_description =
     (case analyze_image world image_path of
        Inl e \<Rightarrow> Inl e
      | Inr raw_analysis \<Rightarrow>
          (let policy = get_policy_data number;
               history = get_customer_history
                 (dict_get (email (dict_get (policyholder policy) no_policyholder)) '''');
               claim =
                 \<lparr>description = Some claim_description,
                  report_date = Some (strftime_dashed (now_report world)),
                  items = Some (extract_items_from_analysis raw_analysis),
                  image_analysis = Some raw_analysis,
                  police_report = Some (contains ''police report'' (lower claim_description))\<rparr>
           in case processor_detect_fraud world claim policy history of
                Inl message \<Rightarrow> Inl (KeyError ''fraud_score'')
              | Inr fraud_detection_result \<Rightarrow>
                  (case calculate_claim_amount claim policy of
                     Inl e \<Rightarrow> Inl e
                   | Inr amount \<Rightarrow>
                       finish_claim world image_path number claim_description raw_analysis
                         claim policy fraud_detection_result amount)))"

text \<open>
  \<^verbatim>\<open>process_claim\<close>: the body, and the \<^verbatim>\<open>except Exception\<close> clause. The
  clause evaluates \<^verbatim>\<open>str(e)\<close> for the log entry, calls
  \<^verbatim>\<open>_log_agent_activity\<close>, and evaluates \<^verbatim>\<open>str(e)\<close> again for the result;
  none of the three is inside a \<^verbatim>\<open>try\<close>, so what they raise reaches the caller.
\<close>

definition failure_entry :: "string \<Rightarrow> string \<Rightarrow> string \<Rightarrow> string \<Rightarrow> log_data" where
  "failure_entry image_path number claim_description message =
     \<lparr>log_agent_type = ''Claims Processor'',
      log_action = ''Claim Processing'',
      log_input = (image_path, number, claim_description),
      log_output = Inl message,
      log_success = False\<rparr>"

definition failure_result :: "string \<Rightarrow> process_result" where
  "failure_result message =
     \<lparr>success = False,
      claim_assessment = None,
      formatted_assessment = None,
      error = Some message\<rparr>"

definition handle_failure ::
  "env \<Rightarrow> string \<Rightarrow> string \<Rightarrow> string \<Rightarrow> py_error \<Rightarrow> py_error + process_result" where
  "handle_failure world image_path number claim_description e =
     (case str_of_error e of
        Inl raised \<Rightarrow> Inl raised
      | Inr logged_message \<Rightarrow>
          (case log_agent_activity world
                  (failure_entry image_path number claim_description logged_message) of
             Inl raised \<Rightarrow> Inl raised
           | Inr logged \<Rightarrow>
               (case str_of_error e of
                  Inl raised \<Rightarrow> Inl raised
                | Inr message \<Rightarrow> Inr (failure_result message))))"

definition process_claim :: "env \<Rightarrow> string \<Rightarrow> string \<Rightarrow> string \<Rightarrow> py_error + process_result" where
  "process_claim world image_path number claim_description =
     try_except (process_claim_body world image_path number claim_description)
       (handle_failure world image_path number claim_description)"

text \<open>Three worlds for the examples: one in which every collaborator answers, one in
  which the vision service and the store fail with ordinary exceptions, and one in which
  the vision service raises an exception whose text cannot be produced.\<close>

definition sample_world :: env where
  "sample_world =
     \<lparr>analyze_image = (\<lambda>path. Inr ''A damaged television is visible.''),
      db_create_claim = (\<lambda>row. Inr ()),
      db_log_agent_activity = (\<lambda>entry. Inr ()),
      format_claim_assessment = (\<lambda>result raw. Inr ''report''),
      print_line = (\<lambda>line. Inr ()),
      hash_text = (\<lambda>s. 4242),
      now_report = \<lparr>year = 2025, month = 6, day = 2, time_of_day = 0\<rparr>,
      now_check = \<lparr>year = 2025, month = 6, day = 2, time_of_day = 1\<rparr>,
      now_number = \<lparr>year = 2025, month = 6, day = 2, time_of_day = 2\<rparr>\<rparr>"

definition failing_world :: env where
  "failing_world =
     sample_world
       \<lparr>analyze_image := (\<lambda>path. Inl (Failure ''no such file'')),
        db_create_claim := (\<lambda>row. Inl (Failure ''store unreachable'')),
        db_log_agent_activity := (\<lambda>entry. Inl (Failure ''store unreachable''))\<rparr>"

definition unprintable_world :: env where
  "unprintable_world =
     sample_world
       \<lparr>analyze_image := (\<lambda>path. Inl (Unprintable (Failure ''no text'')))\<rparr>"

section \<open>Properties\<close>

subsection \<open>Auxiliary facts\<close>

lemma dict_get_simps:
  "dict_get (Some v) d = v"
  "dict_get None d = d"
  by (simp_all add: dict_get_def)

lemma foldl_max_upper: "(x::nat) \<le> foldl max x xs \<and> (\<forall>y \<in> set xs. y \<le> foldl max x xs)"
proof (induction xs arbitrary: x)
  case Nil
  then show ?case by simp
next
  case (Cons a xs)
  from Cons.IH [of "max x a"] show ?case by auto
qed

lemma foldl_max_member: "foldl max (x::nat) xs \<in> set (x # xs)"
proof (induction xs arbitrary: x)
  case Nil
  then show ?case by simp
next
  case (Cons a xs)
  from Cons.IH [of "max x a"] show ?case by (auto simp: max_def split: if_splits)
qed

lemma py_max_returns: "xs \<noteq> [] \<Longrightarrow> \<exists>m. py_max xs = Inr m"
  by (cases xs) simp_all

lemma py_max_upper: "py_max xs = Inr m \<Longrightarrow> y \<in> set xs \<Longrightarrow> y \<le> m"
  using foldl_max_upper by (cases xs) auto

lemma py_max_member: "py_max xs = Inr m \<Longrightarrow> m \<in> set xs"
  using foldl_max_member by (cases xs) auto

text \<open>The head of a filtered list is the first element of the list that passes.\<close>

lemma first_filter_index:
  assumes "\<exists>x \<in> set xs. P x"
  shows "\<exists>i < length xs. first (map f (filter P xs)) = Inr (f (xs ! i)) \<and> P (xs ! i)
            \<and> (\<forall>j < i. \<not> P (xs ! j))"
  using assms
proof (induction xs)
  case Nil
  then show ?case by simp
next
  case (Cons a xs)
  show ?case
  proof (cases "P a")
    case True
    then have "0 < length (a # xs) \<and> first (map f (filter P (a # xs))) = Inr (f ((a # xs) ! 0))
        \<and> P ((a # xs) ! 0) \<and> (\<forall>j < 0. \<not> P ((a # xs) ! j))"
      by simp
    then show ?thesis by (rule exI)
  next
    case False
    with Cons.prems have "\<exists>x \<in> set xs. P x" by auto
    from Cons.IH [OF this] obtain i where i: "i < length xs \<and>
      first (map f (filter P xs)) = Inr (f (xs ! i)) \<and> P (xs ! i) \<and> (\<forall>j < i. \<not> P (xs ! j))"
      ..
    have "\<forall>j < Suc i. \<not> P ((a # xs) ! j)"
    proof (intro allI impI)
      fix j assume "j < Suc i"
      then show "\<not> P ((a # xs) ! j)" using False i by (cases j) auto
    qed
    with i False have "Suc i < length (a # xs)
        \<and> first (map f (filter P (a # xs))) = Inr (f ((a # xs) ! Suc i))
        \<and> P ((a # xs) ! Suc i) \<and> (\<forall>j < Suc i. \<not> P ((a # xs) ! j))"
      by simp
    then show ?thesis by (rule exI)
  qed
qed

text \<open>The selection that \<^verbatim>\<open>_identify_document_type\<close> and \<^verbatim>\<open>_categorize_query\<close>
  share: the maximum is zero exactly when every score is, and the first entry with the
  maximal score is at an index before which every score is smaller.\<close>

lemma pick_zero:
  fixes scores :: "(string \<times> nat) list"
  assumes m: "py_max (map snd scores) = Inr m"
  shows "(m = 0) = (\<forall>j < length scores. snd (scores ! j) = 0)"
proof
  assume "m = 0"
  with py_max_upper [OF m] show "\<forall>j < length scores. snd (scores ! j) = 0" by simp
next
  assume all: "\<forall>j < length scores. snd (scores ! j) = 0"
  from py_max_member [OF m] obtain j where "j < length scores" "snd (scores ! j) = m"
    by (auto simp: in_set_conv_nth)
  with all show "m = 0" by auto
qed

lemma pick_winner:
  fixes scores :: "(string \<times> nat) list"
  assumes m: "py_max (map snd scores) = Inr m"
  shows "\<exists>i < length scores.
            first (map fst (filter (\<lambda>(t, s). s = m) scores)) = Inr (fst (scores ! i))
          \<and> (\<forall>j < length scores. snd (scores ! j) \<le> snd (scores ! i))
          \<and> (\<forall>j < i. snd (scores ! j) < snd (scores ! i))"
proof -
  have le: "\<forall>j < length scores. snd (scores ! j) \<le> m"
    using py_max_upper [OF m] by simp
  from py_max_member [OF m] have ex: "\<exists>x \<in> set scores. (\<lambda>(t, s). s = m) x" by auto
  from first_filter_index [OF ex, of fst] obtain i where i: "i < length scores \<and>
    first (map fst (filter (\<lambda>(t, s). s = m) scores)) = Inr (fst (scores ! i)) \<and>
    (\<lambda>(t, s). s = m) (scores ! i) \<and> (\<forall>j < i. \<not> (\<lambda>(t, s). s = m) (scores ! j))"
    ..
  from i have im: "snd (scores ! i) = m" by (simp add: case_prod_beta)
  have less: "\<forall>j < i. snd (scores ! j) < snd (scores ! i)"
  proof (intro allI impI)
    fix j assume j: "j < i"
    with i have "snd (scores ! j) \<le> m" using le by simp
    moreover from i j have "snd (scores ! j) \<noteq> m" by (simp add: case_prod_beta)
    ultimately show "snd (scores ! j) < snd (scores ! i)" using im by simp
  qed
  from i le less im
  have "i < length scores \<and>
          first (map fst (filter (\<lambda>(t, s). s = m) scores)) = Inr (fst (scores ! i))
        \<and> (\<forall>j < length scores. snd (scores ! j) \<le> snd (scores ! i))
        \<and> (\<forall>j < i. snd (scores ! j) < snd (scores ! i))"
    by simp
  then show ?thesis by (rule exI)
qed

subsection \<open>Claim decision\<close>

lemma claim_status_never_rejected: "claim_status s \<noteq> ''Rejected''"
  by (simp add: claim_status_def)

lemma claim_status_cases:
  "claim_status s = (if s \<le> 0.5 then ''Approved'' else ''Under Review'')"
  by (simp add: claim_status_def)

text \<open>The test \<^verbatim>\<open>fraud_score > 0.5\<close> comes first, so at the score 0.8 the first
  branch is taken; the \<^verbatim>\<open>elif\<close> branch that assigns Rejected is never reached.\<close>

lemma claim_status_above_cutoff: "claim_status 0.8 = ''Under Review''"
  by (simp add: claim_status_def)

subsection \<open>Fraud detector\<close>

lemma indicator_weights:
  "indicator_weight ''timing'' ''recent_policy'' = 0.7"
  "indicator_weight ''timing'' ''weekend_claim'' = 0.3"
  "indicator_weight ''content'' ''vague_description'' = 0.6"
  "indicator_weight ''content'' ''excessive_items'' = 0.5"
  "indicator_weight ''history'' ''multiple_claims'' = 0.7"
  "indicator_weight ''red_flags'' ''water_damage_no_weather'' = 0.7"
  "indicator_weight ''red_flags'' ''theft_no_police_report'' = 0.8"
  by (simp_all add: indicator_weight_def indicator_table_def dict_get_def)

lemma flag_fst_nonneg: "0 \<le> w \<Longrightarrow> 0 \<le> fst acc \<Longrightarrow> 0 \<le> fst (flag t w l acc)"
  by (simp add: flag_def)

lemma accumulate_nonneg: "0 \<le> fst (accumulate now c p h)"
  unfolding accumulate_def
  by (intro flag_fst_nonneg) (simp_all add: indicator_weights)

lemma flag_snd:
  "set (snd (flag t w l acc)) = (if t then insert l (set (snd acc)) else set (snd acc))"
  by (simp add: flag_def)

lemma detect_fraud_indicators:
  "indicators_found (detect_fraud now c p h) = snd (accumulate now c p h)"
  by (simp add: detect_fraud_def Let_def)

lemma excessive_indicator:
  "(''Excessive number of items claimed'' \<in> set (snd (accumulate now c p h)))
     = check_excessive_items c"
  by (simp add: accumulate_def flag_snd)

lemma recent_policy_indicator:
  "(''Recent policy creation'' \<in> set (indicators_found (detect_fraud now c p h)))
     = check_recent_policy now p"
  by (simp add: detect_fraud_indicators accumulate_def flag_snd)

text \<open>
  Claim C2. For every claim, policy and customer history, \<^verbatim>\<open>detect_fraud\<close> returns
  the fraud score \<open>min (raw_score / 5) 1\<close>, where the raw score is the sum accumulated
  by the seven rules; the score lies between 0 and 1; and the risk category is High
  exactly when the score is above 0.7, Medium exactly when it is above 0.3 and at most
  0.7, and Low exactly when it is at most 0.3.
\<close>

theorem detect_fraud_score_and_category:
  "fraud_result.fraud_score (detect_fraud now c p h) = min (fst (accumulate now c p h) / 5.0) 1.0
   \<and> 0 \<le> fraud_result.fraud_score (detect_fraud now c p h)
   \<and> fraud_result.fraud_score (detect_fraud now c p h) \<le> 1
   \<and> (fraud_result.risk_category (detect_fraud now c p h) = ''High'')
       = (fraud_result.fraud_score (detect_fraud now c p h) > 0.7)
   \<and> (fraud_result.risk_category (detect_fraud now c p h) = ''Medium'')
       = (fraud_result.fraud_score (detect_fraud now c p h) > 0.3
          \<and> fraud_result.fraud_score (detect_fraud now c p h) \<le> 0.7)
   \<and> (fraud_result.risk_category (detect_fraud now c p h) = ''Low'')
       = (fraud_result.fraud_score (detect_fraud now c p h) \<le> 0.3)"
  using accumulate_nonneg [of now c p h]
  by (simp add: detect_fraud_def Let_def min_def)

text \<open>With all seven rules triggered the score is 0.86 and the category High; the
  status decision turns that score into Under Review.\<close>

lemma detect_fraud_all_rules:
  "detect_fraud \<lparr>year = 2025, month = 1, day = 11, time_of_day = 0\<rparr>
     \<lparr>description = Some ''Flood, and my TV was stolen'',
      report_date = Some ''2025-01-11'',
      items = Some (replicate 16 ''item''),
      image_analysis = Some [],
      police_report = Some False\<rparr>
     (get_policy_data ''POL-1'')
     \<lparr>history_email = None, total_claims = Some 5, recent_claims = Some 3,
      claim_history = None\<rparr>
   = \<lparr>fraud_result.fraud_score = 0.86,
      fraud_result.risk_category = ''High'',
      indicators_found =
        [''Recent policy creation'', ''Claim filed on weekend'', ''Vague claim description'',
         ''Excessive number of items claimed'', ''Multiple recent claims'',
         ''Water damage claim without weather event'', ''Theft claim without police report''],
      recommended_action = ''Escalate for investigation''\<rparr>"
  by code_simp

lemma high_score_is_not_rejected:
  "claim_status 0.86 = ''Under Review''"
  by (simp add: claim_status_def)

lemma strptime_january_first:
  "strptime ''2025-01-01'' = Inr \<lparr>year = 2025, month = 1, day = 1, time_of_day = 0\<rparr>"
  by code_simp

lemma strptime_january_tenth:
  "strptime ''2025-01-10'' = Inr \<lparr>year = 2025, month = 1, day = 10, time_of_day = 0\<rparr>"
  by code_simp

lemma nine_days:
  "days_between \<lparr>year = 2025, month = 1, day = 10, time_of_day = 0\<rparr>
     \<lparr>year = 2025, month = 1, day = 1, time_of_day = 0\<rparr> = 9"
  by code_simp

lemma not_recent_in_june:
  "\<not> check_recent_policy \<lparr>year = 2025, month = 6, day = 1, time_of_day = 0\<rparr>
       (get_policy_data ''POL-1'')"
  by code_simp

lemma recent_in_january:
  "check_recent_policy \<lparr>year = 2025, month = 1, day = 10, time_of_day = 0\<rparr>
     (get_policy_data ''POL-1'')"
  by code_simp

text \<open>
  Claim C4. The Recent policy rule triggers exactly when fewer than 30 days lie between
  the policy's start date and the claim's report date, and depends on these two fields
  only. The code compares the start date with the clock instead: for the policy that
  starts on 2025-01-01 and a claim reported on 2025-01-10, nine days later, a call of
  \<^verbatim>\<open>detect_fraud\<close> on 2025-06-01 does not report the indicator.
\<close>

theorem recent_policy_rule_reads_the_clock:
  "start_date (get_policy_data ''POL-1'') = Some ''2025-01-01''
   \<and> strptime ''2025-01-01'' = Inr \<lparr>year = 2025, month = 1, day = 1, time_of_day = 0\<rparr>
   \<and> strptime ''2025-01-10'' = Inr \<lparr>year = 2025, month = 1, day = 10, time_of_day = 0\<rparr>
   \<and> days_between \<lparr>year = 2025, month = 1, day = 10, time_of_day = 0\<rparr>
        \<lparr>year = 2025, month = 1, day = 1, time_of_day = 0\<rparr> = 9
   \<and> ''Recent policy creation'' \<notin> set (indicators_found
        (detect_fraud \<lparr>year = 2025, month = 6, day = 1, time_of_day = 0\<rparr>
           \<lparr>description = Some ''A pipe burst in the kitchen during the storm'',
            report_date = Some ''2025-01-10'', items = Some [],
            image_analysis = Some [], police_report = Some False\<rparr>
           (get_policy_data ''POL-1'') (get_customer_history [])))
   \<and> ''Recent policy creation'' \<in> set (indicators_found
        (detect_fraud \<lparr>year = 2025, month = 1, day = 10, time_of_day = 0\<rparr>
           \<lparr>description = Some ''A pipe burst in the kitchen during the storm'',
            report_date = Some ''2025-01-10'', items = Some [],
            image_analysis = Some [], police_report = Some False\<rparr>
           (get_policy_data ''POL-1'') (get_customer_history [])))"
proof (intro conjI)
  show "start_date (get_policy_data ''POL-1'') = Some ''2025-01-01''"
    by (simp add: get_policy_data_def)
  show "strptime ''2025-01-01'' = Inr \<lparr>year = 2025, month = 1, day = 1, time_of_day = 0\<rparr>"
    by (rule strptime_january_first)
  show "strptime ''2025-01-10'' = Inr \<lparr>year = 2025, month = 1, day = 10, time_of_day = 0\<rparr>"
    by (rule strptime_january_tenth)
  show "days_between \<lparr>year = 2025, month = 1, day = 10, time_of_day = 0\<rparr>
        \<lparr>year = 2025, month = 1, day = 1, time_of_day = 0\<rparr> = 9"
    by (rule nine_days)
  show "''Recent policy creation'' \<notin> set (indicators_found
        (detect_fraud \<lparr>year = 2025, month = 6, day = 1, time_of_day = 0\<rparr>
           \<lparr>description = Some ''A pipe burst in the kitchen during the storm'',
            report_date = Some ''2025-01-10'', items = Some [],
            image_analysis = Some [], police_report = Some False\<rparr>
           (get_policy_data ''POL-1'') (get_customer_history [])))"
    unfolding recent_policy_indicator by (rule not_recent_in_june)
  show "''Recent policy creation'' \<in> set (indicators_found
        (detect_fraud \<lparr>year = 2025, month = 1, day = 10, time_of_day = 0\<rparr>
           \<lparr>description = Some ''A pipe burst in the kitchen during the storm'',
            report_date = Some ''2025-01-10'', items = Some [],
            image_analysis = Some [], police_report = Some False\<rparr>
           (get_policy_data ''POL-1'') (get_customer_history [])))"
    unfolding recent_policy_indicator by (rule recent_in_january)
qed

subsection \<open>Risk model\<close>

lemma normalize_item_risk_returns:
  "normalize_item_risk x t = Inr (if t > 0 then x / real_of_int t else x)"
  by (simp add: normalize_item_risk_def py_div_def)

lemma item_totals_foldl:
  "foldl (\<lambda>acc entry. (fst acc + weighted entry, snd acc + snd entry)) (a, b) entries
   = (a + sum_list (map weighted entries), b + sum_list (map snd entries))"
  by (induction entries arbitrary: a b) (auto simp: algebra_simps)

lemma item_totals_eq:
  "item_totals entries = (sum_list (map weighted entries), sum_list (map snd entries))"
  unfolding item_totals_def using item_totals_foldl [of 0 0 entries] by simp

lemma zero_counts:
  assumes "\<forall>(c, n) \<in> set entries. (0::int) \<le> n" and "sum_list (map snd entries) = 0"
  shows "\<forall>entry \<in> set entries. snd entry = 0"
proof -
  have nn: "\<And>n. n \<in> set (map snd entries) \<Longrightarrow> 0 \<le> n" using assms(1) by auto
  have "(sum_list (map snd entries) = 0) = (\<forall>n \<in> set (map snd entries). n = 0)"
    by (rule sum_list_nonneg_eq_0_iff) (rule nn)
  with assms(2) have "\<forall>n \<in> set (map snd entries). n = 0" by simp
  then show ?thesis by simp
qed

lemma weighted_zero:
  "\<forall>entry \<in> set entries. snd entry = 0 \<Longrightarrow> sum_list (map weighted entries) = 0"
  by (induction entries) (auto simp: weighted_def)

text \<open>
  Claim C6. \<^verbatim>\<open>assess_risk\<close> never divides by zero: it returns an assessment for
  every inventory and every list of location factors, the division being under the guard
  that the total count is positive. The total count is the sum of the counts, and for an
  inventory of non-negative counts whose total is 0, the empty one included, the item
  risk contribution of the assessment is 0.
\<close>

theorem assess_risk_zero_total:
  "(\<exists>r. assess_risk inventory location_factors = Inr r)
   \<and> normalize_item_risk x t = Inr (if t > 0 then x / real_of_int t else x)
   \<and> snd (item_totals inventory) = sum_list (map snd inventory)
   \<and> ((\<forall>(c, n) \<in> set inventory. 0 \<le> n) \<and> sum_list (map snd inventory) = 0
        \<longrightarrow> (\<exists>r. assess_risk inventory location_factors = Inr r
                 \<and> item_risk_contribution r = 0))"
proof (intro conjI impI)
  show "\<exists>r. assess_risk inventory location_factors = Inr r"
    by (simp add: assess_risk_def normalize_item_risk_returns Let_def)
  show "normalize_item_risk x t = Inr (if t > 0 then x / real_of_int t else x)"
    by (rule normalize_item_risk_returns)
  show "snd (item_totals inventory) = sum_list (map snd inventory)"
    by (simp add: item_totals_eq)
next
  assume h: "(\<forall>(c, n) \<in> set inventory. 0 \<le> n) \<and> sum_list (map snd inventory) = 0"
  then have "\<forall>entry \<in> set inventory. snd entry = 0" using zero_counts by blast
  then have "fst (item_totals inventory) = 0"
    by (simp add: item_totals_eq weighted_zero)
  with h show "\<exists>r. assess_risk inventory location_factors = Inr r \<and> item_risk_contribution r = 0"
    by (simp add: assess_risk_def normalize_item_risk_returns Let_def item_totals_eq)
qed

theorem assess_risk_zero_total_witness:
  "\<exists>r. assess_risk [(''jewelry'', 0), (''art'', 0)] [''flood_zone'', ''urban''] = Inr r
        \<and> item_risk_contribution r = 0"
  using assess_risk_zero_total [of "[(''jewelry'', 0), (''art'', 0)]" "[''flood_zone'', ''urban'']"]
  by simp

lemma assess_risk_empty_inventory:
  "\<exists>r. assess_risk [] [''flood_zone'', ''urban''] = Inr r \<and> item_risk_contribution r = 0
     \<and> risk_score r = 0 \<and> risk_assessment.risk_category r = ''Low''"
  by (simp add: assess_risk_def normalize_item_risk_returns Let_def item_totals_eq)

subsection \<open>Document analyzer\<close>


















subsection \<open>Sentiment analyzer\<close>

lemma analyze_sentiment_empty:
  "analyze_sentiment [] =
     \<lparr>sentiment = ''neutral'', sentiment_score = 0, positive_count = 0, negative_count = 0,
      neutral_count = 0, emotions = [], key_phrases = []\<rparr>"
  by code_simp

text \<open>
  Claim C7. For every text the sentiment score that \<^verbatim>\<open>analyze_sentiment\<close> returns
  lies between -1 and 1, and for the empty text the sentiment is neutral and the score
  is 0.
\<close>

theorem analyze_sentiment_score_range:
  "- 1 \<le> sentiment_score (analyze_sentiment doc)
   \<and> sentiment_score (analyze_sentiment doc) \<le> 1
   \<and> sentiment (analyze_sentiment []) = ''neutral''
   \<and> sentiment_score (analyze_sentiment []) = 0"
proof (intro conjI)
  show "- 1 \<le> sentiment_score (analyze_sentiment doc)"
    by (simp add: analyze_sentiment_def Let_def)
  show "sentiment_score (analyze_sentiment doc) \<le> 1"
    by (simp add: analyze_sentiment_def Let_def)
  show "sentiment (analyze_sentiment []) = ''neutral''"
    by (simp add: analyze_sentiment_empty)
  show "sentiment_score (analyze_sentiment []) = 0"
    by (simp add: analyze_sentiment_empty)
qed

subsection \<open>Query categories\<close>

lemma category_scores_length: "length (category_scores query) = length categories"
  by (simp add: category_scores_def)

lemma category_scores_nth:
  "j < length categories \<Longrightarrow>
     category_scores query ! j
       = (fst (categories ! j), keyword_score (lower query) (snd (categories ! j)))"
  by (simp add: category_scores_def case_prod_beta)

lemma category_scores_nonempty: "category_scores query \<noteq> []"
  by (simp add: category_scores_def categories_def)

lemma categorize_query_general:
  "((\<forall>j < length categories. keyword_score (lower query) (snd (categories ! j)) = 0)
        \<longrightarrow> categorize_query query = Inr ''general_inquiry'')
   \<and> ((\<exists>j < length categories. keyword_score (lower query) (snd (categories ! j)) \<noteq> 0)
        \<longrightarrow> (\<exists>i < length categories.
               categorize_query query = Inr (fst (categories ! i))
             \<and> (\<forall>j < length categories.
                   keyword_score (lower query) (snd (categories ! j))
                     \<le> keyword_score (lower query) (snd (categories ! i)))
             \<and> (\<forall>j < i.
                   keyword_score (lower query) (snd (categories ! j))
                     < keyword_score (lower query) (snd (categories ! i)))))"
proof -
  from py_max_returns [of "map snd (category_scores query)"] category_scores_nonempty [of query]
  obtain m where m: "py_max (map snd (category_scores query)) = Inr m" by auto
  have id: "categorize_query query =
      (if m = 0 then Inr ''general_inquiry''
       else first (map fst (filter (\<lambda>(c, s). s = m) (category_scores query))))"
    using m by (simp add: categorize_query_def Let_def)
  have zero: "(m = 0) = (\<forall>j < length categories.
      keyword_score (lower query) (snd (categories ! j)) = 0)"
    using pick_zero [OF m] by (simp add: category_scores_nth category_scores_length)
  show ?thesis
  proof (cases "m = 0")
    case True
    with zero have all: "\<forall>j < length categories.
        keyword_score (lower query) (snd (categories ! j)) = 0" by simp
    from True id have "categorize_query query = Inr ''general_inquiry''" by simp
    with all show ?thesis by auto
  next
    case False
    from pick_winner [OF m] obtain i where i: "i < length (category_scores query) \<and>
      first (map fst (filter (\<lambda>(t, s). s = m) (category_scores query)))
             = Inr (fst (category_scores query ! i)) \<and>
      (\<forall>j < length (category_scores query).
               snd (category_scores query ! j) \<le> snd (category_scores query ! i)) \<and>
      (\<forall>j < i. snd (category_scores query ! j) < snd (category_scores query ! i))"
      ..
    from i have il: "i < length categories" by (simp add: category_scores_length)
    have a: "categorize_query query = Inr (fst (categories ! i))"
      using id False i il by (simp add: category_scores_nth)
    have b: "\<forall>j < length categories.
        keyword_score (lower query) (snd (categories ! j))
          \<le> keyword_score (lower query) (snd (categories ! i))"
      using i il by (simp add: category_scores_nth category_scores_length)
    have c: "\<forall>j < i. keyword_score (lower query) (snd (categories ! j))
          < keyword_score (lower query) (snd (categories ! i))"
    proof (intro allI impI)
      fix j assume "j < i"
      with i il show "keyword_score (lower query) (snd (categories ! j))
          < keyword_score (lower query) (snd (categories ! i))"
        using category_scores_nth [of j query] category_scores_nth [of i query] by auto
    qed
    from zero False have nz: "\<not> (\<forall>j < length categories.
        keyword_score (lower query) (snd (categories ! j)) = 0)" by simp
    from il a b c have w: "\<exists>i < length categories.
               categorize_query query = Inr (fst (categories ! i))
             \<and> (\<forall>j < length categories.
                   keyword_score (lower query) (snd (categories ! j))
                     \<le> keyword_score (lower query) (snd (categories ! i)))
             \<and> (\<forall>j < i.
                   keyword_score (lower query) (snd (categories ! j))
                     < keyword_score (lower query) (snd (categories ! i)))"
      by (intro exI [of _ i]) simp
    show ?thesis
    proof (intro conjI impI)
      assume "\<forall>j < length categories.
          keyword_score (lower query) (snd (categories ! j)) = 0"
      with nz show "categorize_query query = Inr ''general_inquiry''" by simp
    next
      show "\<exists>i < length categories.
               categorize_query query = Inr (fst (categories ! i))
             \<and> (\<forall>j < length categories.
                   keyword_score (lower query) (snd (categories ! j))
                     \<le> keyword_score (lower query) (snd (categories ! i)))
             \<and> (\<forall>j < i.
                   keyword_score (lower query) (snd (categories ! j))
                     < keyword_score (lower query) (snd (categories ! i)))"
        by (rule w)
    qed
  qed
qed

lemma categories_order:
  "map fst categories =
     [''policy_info'', ''claim_status'', ''billing'', ''technical_support'',
      ''coverage_question'', ''complaint'']"
  by (simp add: categories_def)

lemma sample_category_scores:
  "category_scores ''What is my deductible and how do I pay my bill?'' =
     [(''policy_info'', 1), (''claim_status'', 0), (''billing'', 2), (''technical_support'', 0),
      (''coverage_question'', 0), (''complaint'', 0)]"
  by code_simp

lemma sample_category: 
  "categorize_query ''What is my deductible and how do I pay my bill?'' = Inr ''billing''"
  by code_simp

text \<open>
  Claim C9, as amended. The categories are declared in the order policy\_info,
  claim\_status, billing, technical\_support, coverage\_question, complaint, and the
  score of a category is the number of its keywords that occur in the lower-cased query.
  When every score is zero the result is general\_inquiry; otherwise the result has the
  highest score and every category declared before it has a smaller one. For the query
  ``What is my deductible and how do I pay my bill?'' the scores are 1 for policy\_info
  (deductible) and 2 for billing (bill, pay), and the result is billing.
\<close>

theorem categorize_query_highest_score:
  "map fst categories =
     [''policy_info'', ''claim_status'', ''billing'', ''technical_support'',
      ''coverage_question'', ''complaint'']
   \<and> ((\<forall>j < length categories. keyword_score (lower query) (snd (categories ! j)) = 0)
        \<longrightarrow> categorize_query query = Inr ''general_inquiry'')
   \<and> ((\<exists>j < length categories. keyword_score (lower query) (snd (categories ! j)) \<noteq> 0)
        \<longrightarrow> (\<exists>i < length categories.
               categorize_query query = Inr (fst (categories ! i))
             \<and> (\<forall>j < length categories.
                   keyword_score (lower query) (snd (categories ! j))
                     \<le> keyword_score (lower query) (snd (categories ! i)))
             \<and> (\<forall>j < i.
                   keyword_score (lower query) (snd (categories ! j))
                     < keyword_score (lower query) (snd (categories ! i)))))
   \<and> category_scores ''What is my deductible and how do I pay my bill?'' =
       [(''policy_info'', 1), (''claim_status'', 0), (''billing'', 2), (''technical_support'', 0),
        (''coverage_question'', 0), (''complaint'', 0)]
   \<and> categorize_query ''What is my deductible and how do I pay my bill?'' = Inr ''billing''"
  using categories_order categorize_query_general [of query]
    sample_category_scores sample_category
  by (intro conjI) (assumption | elim conjE)+

lemma sample_policy_info_score:
  "keyword_score (lower ''What is my deductible and how do I pay my bill?'')
     (snd (categories ! 0)) = 1"
  using category_scores_nth [of 0 "''What is my deductible and how do I pay my bill?''"]
  by (simp add: sample_category_scores categories_def)

theorem categorize_query_highest_score_witness:
  "\<exists>i < length categories.
      categorize_query ''What is my deductible and how do I pay my bill?''
        = Inr (fst (categories ! i))
    \<and> (\<forall>j < length categories.
          keyword_score (lower ''What is my deductible and how do I pay my bill?'')
              (snd (categories ! j))
            \<le> keyword_score (lower ''What is my deductible and how do I pay my bill?'')
                (snd (categories ! i)))
    \<and> (\<forall>j < i.
          keyword_score (lower ''What is my deductible and how do I pay my bill?'')
              (snd (categories ! j))
            < keyword_score (lower ''What is my deductible and how do I pay my bill?'')
                (snd (categories ! i)))"
proof -
  have "\<exists>j < length categories.
      keyword_score (lower ''What is my deductible and how do I pay my bill?'')
        (snd (categories ! j)) \<noteq> 0"
    using sample_policy_info_score by (intro exI [of _ 0]) (simp add: categories_def)
  with categorize_query_highest_score [of "''What is my deductible and how do I pay my bill?''",
      THEN conjunct2, THEN conjunct2, THEN conjunct1]
  show ?thesis by (rule mp)
qed

text \<open>The claim as stated fails: for that query the result is not policy\_info.\<close>

theorem categorize_query_policy_info_counterexample:
  "categorize_query ''What is my deductible and how do I pay my bill?'' \<noteq> Inr ''policy_info''"
  by (simp add: sample_category)

subsection \<open>Claims processor\<close>

lemma print_error_returns:
  assumes "\<forall>line. print_line world line = Inr ()" and "has_text e"
  shows "print_error world label e = Inr ()"
  using assms by (auto simp: print_error_def has_text_def split: sum.splits)

lemma save_claim_returns:
  assumes "\<forall>row e. db_create_claim world row = Inl e \<longrightarrow> has_text e"
    and "\<forall>line. print_line world line = Inr ()"
  shows "save_claim world row = Inr ()"
proof (cases "db_create_claim world row")
  case (Inl e)
  with assms(1) have t: "has_text e" by blast
  then have "is_exception e" by (simp add: has_text_def split: sum.splits)
  with Inl print_error_returns [OF assms(2) t] show ?thesis
    by (simp add: save_claim_def try_except_def)
next
  case (Inr u)
  then show ?thesis by (simp add: save_claim_def try_except_def)
qed

lemma log_agent_activity_returns:
  assumes "\<forall>entry e. db_log_agent_activity world entry = Inl e \<longrightarrow> has_text e"
    and "\<forall>line. print_line world line = Inr ()"
  shows "log_agent_activity world entry = Inr ()"
proof (cases "db_log_agent_activity world entry")
  case (Inl e)
  with assms(1) have t: "has_text e" by blast
  then have "is_exception e" by (simp add: has_text_def split: sum.splits)
  with Inl print_error_returns [OF assms(2) t] show ?thesis
    by (simp add: log_agent_activity_def try_except_def)
next
  case (Inr u)
  then show ?thesis by (simp add: log_agent_activity_def try_except_def)
qed

lemma process_claim_body_success:
  "process_claim_body world i n d = Inr r \<Longrightarrow> success r"
  by (auto simp: process_claim_body_def finish_claim_def Let_def split: sum.splits)

lemma process_claim_body_failure_has_text:
  assumes vision: "\<forall>path e. analyze_image world path = Inl e \<longrightarrow> has_text e"
    and store: "\<forall>row e. db_create_claim world row = Inl e \<longrightarrow> has_text e"
    and logging: "\<forall>entry e. db_log_agent_activity world entry = Inl e \<longrightarrow> has_text e"
    and rendering: "\<forall>result raw e. format_claim_assessment world result raw = Inl e \<longrightarrow> has_text e"
    and printing: "\<forall>line. print_line world line = Inr ()"
    and body: "process_claim_body world i n d = Inl e"
  shows "has_text e"
proof (cases "analyze_image world i")
  case (Inl raised)
  with body have "e = raised" by (simp add: process_claim_body_def)
  with Inl vision show ?thesis by blast
next
  case (Inr raw)
  have key: "has_text (KeyError k)" for k by (simp add: has_text_def)
  from body Inr show ?thesis
    using rendering key
    by (auto simp: process_claim_body_def finish_claim_def Let_def calculate_claim_amount_def
        save_claim_returns [OF store printing] log_agent_activity_returns [OF logging printing]
        split: sum.splits)
qed

text \<open>
  Claim C3, as amended. Suppose that every exception raised by the vision service, the
  store and the rendering derives from \<^verbatim>\<open>Exception\<close> and has a text, and that
  printing succeeds. Then for every image path, policy number and claim description
  \<^verbatim>\<open>process_claim\<close> returns a result and raises nothing: either the body of its
  \<^verbatim>\<open>try\<close> block returned that result, which reports success, or the body raised an
  exception and the result carries \<^verbatim>\<open>success = False\<close> with the text of that
  exception as its error.
\<close>

theorem process_claim_returns_when_failures_have_text:
  assumes vision: "\<forall>path e. analyze_image world path = Inl e \<longrightarrow> has_text e"
    and store: "\<forall>row e. db_create_claim world row = Inl e \<longrightarrow> has_text e"
    and logging: "\<forall>entry e. db_log_agent_activity world entry = Inl e \<longrightarrow> has_text e"
    and rendering: "\<forall>result raw e. format_claim_assessment world result raw = Inl e \<longrightarrow> has_text e"
    and printing: "\<forall>line. print_line world line = Inr ()"
  shows "\<exists>r. process_claim world image_path number claim_description = Inr r
      \<and> ((process_claim_body world image_path number claim_description = Inr r \<and> success r)
         \<or> (\<exists>e message. process_claim_body world image_path number claim_description = Inl e
               \<and> str_of_error e = Inr message
               \<and> r = \<lparr>success = False, claim_assessment = None, formatted_assessment = None,
                        error = Some message\<rparr>))"
proof (cases "process_claim_body world image_path number claim_description")
  case (Inl e)
  from process_claim_body_failure_has_text [OF vision store logging rendering printing Inl]
  have t: "has_text e" .
  then obtain message where m: "str_of_error e = Inr message" and ex: "is_exception e"
    by (auto simp: has_text_def split: sum.splits)
  have "process_claim world image_path number claim_description = Inr (failure_result message)"
    using Inl m ex
    by (simp add: process_claim_def try_except_def handle_failure_def
        log_agent_activity_returns [OF logging printing])
  with Inl m show ?thesis by (simp add: failure_result_def)
next
  case (Inr r)
  then show ?thesis
    using process_claim_body_success [OF Inr] by (simp add: process_claim_def try_except_def)
qed

lemma failing_world_has_text:
  "\<forall>path e. analyze_image failing_world path = Inl e \<longrightarrow> has_text e"
  "\<forall>row e. db_create_claim failing_world row = Inl e \<longrightarrow> has_text e"
  "\<forall>entry e. db_log_agent_activity failing_world entry = Inl e \<longrightarrow> has_text e"
  "\<forall>result raw e. format_claim_assessment failing_world result raw = Inl e \<longrightarrow> has_text e"
  "\<forall>line. print_line failing_world line = Inr ()"
  by (auto simp: failing_world_def sample_world_def has_text_def)

theorem process_claim_returns_when_failures_have_text_witness:
  "\<exists>r. process_claim failing_world ''photo.jpg'' ''POL-1'' ''My TV was stolen'' = Inr r
      \<and> ((process_claim_body failing_world ''photo.jpg'' ''POL-1'' ''My TV was stolen'' = Inr r
            \<and> success r)
         \<or> (\<exists>e message.
               process_claim_body failing_world ''photo.jpg'' ''POL-1'' ''My TV was stolen'' = Inl e
               \<and> str_of_error e = Inr message
               \<and> r = \<lparr>success = False, claim_assessment = None, formatted_assessment = None,
                        error = Some message\<rparr>))"
  by (rule process_claim_returns_when_failures_have_text [OF failing_world_has_text])

lemma failing_world_run:
  "process_claim failing_world ''photo.jpg'' ''POL-1'' ''My TV was stolen''
     = Inr \<lparr>success = False, claim_assessment = None, formatted_assessment = None,
            error = Some ''no such file''\<rparr>"
  by (simp add: process_claim_def process_claim_body_def try_except_def handle_failure_def
      log_agent_activity_def print_error_def failure_result_def failing_world_def
      sample_world_def)

text \<open>The claim as stated fails: when the vision service raises an exception whose
  \<^verbatim>\<open>__str__\<close> raises, the \<^verbatim>\<open>except\<close> clause raises in turn and
  \<^verbatim>\<open>process_claim\<close> passes that exception to its caller.\<close>

theorem process_claim_raises_counterexample:
  "process_claim unprintable_world ''photo.jpg'' ''POL-1'' ''My TV was stolen''
     = Inl (Failure ''no text'')"
  by (simp add: process_claim_def process_claim_body_def try_except_def handle_failure_def
      unprintable_world_def sample_world_def)

lemma process_claim_assessment_from_body:
  "process_claim world image_path number claim_description = Inr r
   \<Longrightarrow> claim_assessment r = Some a
   \<Longrightarrow> process_claim_body world image_path number claim_description = Inr r"
  by (auto simp: process_claim_def try_except_def handle_failure_def failure_result_def
      split: sum.splits if_splits)

lemma extract_items_length: "length (extract_items_from_analysis analysis_text) \<le> 10"
  by (simp add: extract_items_from_analysis_def Let_def)

text \<open>
  Claim C10. The item list extracted from any image analysis has at most 10 entries;
  so whenever \<^verbatim>\<open>process_claim\<close> returns an assessment, it lists at most 10 claimed
  items and its fraud indicators do not contain ``Excessive number of items claimed''.
\<close>

theorem process_claim_items_bounded:
  "length (extract_items_from_analysis analysis_text) \<le> 10
   \<and> (process_claim world image_path number claim_description = Inr r
        \<longrightarrow> claim_assessment r = Some a
        \<longrightarrow> length (items_claimed a) \<le> 10
            \<and> ''Excessive number of items claimed'' \<notin> set (fraud_indicators a))"
proof (intro conjI impI)
  show "length (extract_items_from_analysis analysis_text) \<le> 10"
    by (rule extract_items_length)
next
  assume run: "process_claim world image_path number claim_description = Inr r"
    and some: "claim_assessment r = Some a"
  from process_claim_assessment_from_body [OF run some]
  have body: "process_claim_body world image_path number claim_description = Inr r" .
  then obtain raw where raw: "analyze_image world image_path = Inr raw"
    by (auto simp: process_claim_body_def split: sum.splits)
  define claim where "claim =
    \<lparr>description = Some claim_description,
     report_date = Some (strftime_dashed (now_report world)),
     items = Some (extract_items_from_analysis raw),
     image_analysis = Some raw,
     police_report = Some (contains ''police report'' (lower claim_description))\<rparr>"
  define history where "history =
    get_customer_history
      (dict_get (email (dict_get (policyholder (get_policy_data number)) no_policyholder)) [])"
  have not_excessive: "\<not> check_excessive_items claim"
    using extract_items_length [of raw]
    by (simp add: check_excessive_items_def claim_def dict_get_simps)
  from body raw some
  have a: "items_claimed a = extract_items_from_analysis raw"
    "fraud_indicators a = snd (accumulate (now_check world) claim (get_policy_data number) history)"
    by (auto simp: process_claim_body_def finish_claim_def Let_def processor_detect_fraud_def
        fraud_detection_tool_def detect_fraud_indicators claim_def history_def dict_get_simps
        split: sum.splits)
  show "length (items_claimed a) \<le> 10" using a(1) extract_items_length [of raw] by simp
  show "''Excessive number of items claimed'' \<notin> set (fraud_indicators a)"
    using not_excessive excessive_indicator a(2) by simp
qed

lemma sample_run:
  "\<exists>r a. process_claim sample_world ''photo.jpg'' ''POL-1'' ''My TV was stolen'' = Inr r
      \<and> claim_assessment r = Some a"
  by (simp add: process_claim_def process_claim_body_def finish_claim_def Let_def
      try_except_def sample_world_def save_claim_def log_agent_activity_def
      processor_detect_fraud_def fraud_detection_tool_def calculate_claim_amount_def)

theorem process_claim_items_bounded_witness:
  "\<exists>r a. process_claim sample_world ''photo.jpg'' ''POL-1'' ''My TV was stolen'' = Inr r
      \<and> claim_assessment r = Some a
      \<and> length (items_claimed a) \<le> 10
      \<and> ''Excessive number of items claimed'' \<notin> set (fraud_indicators a)"
proof -
  from sample_run obtain r a where
    run: "process_claim sample_world ''photo.jpg'' ''POL-1'' ''My TV was stolen'' = Inr r"
    and some: "claim_assessment r = Some a"
    by auto
  from process_claim_items_bounded
    [where world = sample_world and image_path = "''photo.jpg''" and number = "''POL-1''"
       and claim_description = "''My TV was stolen''" and r = r and a = a] run some
  have "length (items_claimed a) \<le> 10
      \<and> ''Excessive number of items claimed'' \<notin> set (fraud_indicators a)"
    by simp
  with run some show ?thesis by auto
qed

text \<open>With the fixed policy and customer history of \<^verbatim>\<open>process_claim\<close> the rules on
  items and on recent claims never trigger, so the scores it decides on are at most
  0.62.\<close>

lemma accumulate_without_items_and_history:
  "\<not> check_excessive_items c \<Longrightarrow> \<not> check_multiple_claims h
   \<Longrightarrow> fst (accumulate now c p h) \<le> 3.1"
  by (simp add: accumulate_def flag_def indicator_weights)

lemma process_claim_score_bound:
  assumes run: "process_claim world image_path number claim_description = Inr r"
    and some: "claim_assessment r = Some a"
  shows "fraud_score a \<le> 0.62"
proof -
  from process_claim_assessment_from_body [OF run some]
  have body: "process_claim_body world image_path number claim_description = Inr r" .
  then obtain raw where raw: "analyze_image world image_path = Inr raw"
    by (auto simp: process_claim_body_def split: sum.splits)
  define claim where "claim =
    \<lparr>description = Some claim_description,
     report_date = Some (strftime_dashed (now_report world)),
     items = Some (extract_items_from_analysis raw),
     image_analysis = Some raw,
     police_report = Some (contains ''police report'' (lower claim_description))\<rparr>"
  define history where "history =
    get_customer_history
      (dict_get (email (dict_get (policyholder (get_policy_data number)) no_policyholder)) [])"
  have c: "\<not> check_excessive_items claim"
    using extract_items_length [of raw]
    by (simp add: check_excessive_items_def claim_def dict_get_simps)
  have h: "\<not> check_multiple_claims history"
    by (simp add: check_multiple_claims_def history_def get_customer_history_def dict_get_simps)
  from body raw some
  have "fraud_score a
      = min (fst (accumulate (now_check world) claim (get_policy_data number) history) / 5.0) 1.0"
    by (auto simp: process_claim_body_def finish_claim_def Let_def processor_detect_fraud_def
        fraud_detection_tool_def detect_fraud_def claim_def history_def dict_get_simps
        split: sum.splits)
  with accumulate_without_items_and_history [OF c h, of "now_check world" "get_policy_data number"]
  show ?thesis by simp
qed

lemma process_claim_status:
  assumes run: "process_claim world image_path number claim_description = Inr r"
    and some: "claim_assessment r = Some a"
  shows "status a = claim_status (fraud_score a)"
  using process_claim_assessment_from_body [OF run some] some
  by (auto simp: process_claim_body_def finish_claim_def Let_def split: sum.splits)

text \<open>
  Claim C1, as amended. For every claim that \<^verbatim>\<open>process_claim\<close> processes, the
  fraud score is at most 0.62, and the final status is Approved when the score is at
  most 0.5 and Under Review when it is above 0.5. No processed claim has a score above
  0.7.
\<close>

theorem process_claim_status_by_score:
  "process_claim world image_path number claim_description = Inr r
   \<longrightarrow> claim_assessment r = Some a
   \<longrightarrow> fraud_score a \<le> 0.62
       \<and> status a = (if fraud_score a \<le> 0.5 then ''Approved'' else ''Under Review'')"
proof (intro impI)
  assume run: "process_claim world image_path number claim_description = Inr r"
    and some: "claim_assessment r = Some a"
  from process_claim_score_bound [OF run some] process_claim_status [OF run some]
  show "fraud_score a \<le> 0.62
       \<and> status a = (if fraud_score a \<le> 0.5 then ''Approved'' else ''Under Review'')"
    by (simp add: claim_status_cases)
qed

theorem process_claim_status_by_score_witness:
  "\<exists>r a. process_claim sample_world ''photo.jpg'' ''POL-1'' ''My TV was stolen'' = Inr r
      \<and> claim_assessment r = Some a
      \<and> fraud_score a \<le> 0.62
      \<and> status a = (if fraud_score a \<le> 0.5 then ''Approved'' else ''Under Review'')"
proof -
  from sample_run obtain r a where
    run: "process_claim sample_world ''photo.jpg'' ''POL-1'' ''My TV was stolen'' = Inr r"
    and some: "claim_assessment r = Some a"
    by auto
  from process_claim_status_by_score
    [where world = sample_world and image_path = "''photo.jpg''" and number = "''POL-1''"
       and claim_description = "''My TV was stolen''" and r = r and a = a] run some
  have "fraud_score a \<le> 0.62
      \<and> status a = (if fraud_score a \<le> 0.5 then ''Approved'' else ''Under Review'')"
    by simp
  with run some show ?thesis by auto
qed

text \<open>The claim as stated fails: no fraud score above 0.7 is given the status Rejected
  by the decision, and no claim that \<^verbatim>\<open>process_claim\<close> processes has such a score or
  that status.\<close>

theorem rejected_above_cutoff_counterexample:
  "\<not> (\<exists>s. s > 0.7 \<and> claim_status s = ''Rejected'')
   \<and> \<not> (\<exists>world image_path number claim_description r a.
           process_claim world image_path number claim_description = Inr r
         \<and> claim_assessment r = Some a
         \<and> (fraud_score a > 0.7 \<or> status a = ''Rejected''))"
proof (intro conjI notI)
  assume "\<exists>s. s > 0.7 \<and> claim_status s = ''Rejected''"
  then show False by (simp add: claim_status_never_rejected)
next
  assume "\<exists>world image_path number claim_description r a.
           process_claim world image_path number claim_description = Inr r
         \<and> claim_assessment r = Some a
         \<and> (fraud_score a > 0.7 \<or> status a = ''Rejected'')"
  then obtain world image_path number claim_description r a where
    run: "process_claim world image_path number claim_description = Inr r"
    and some: "claim_assessment r = Some a"
    and bad: "fraud_score a > 0.7 \<or> status a = ''Rejected''"
    by blast
  from process_claim_score_bound [OF run some] process_claim_status [OF run some] bad
  show False by (simp add: claim_status_never_rejected)
qed

end
